theory Spec2Isabelle
  imports Main "HOL-Library.Monad_Syntax"
begin

section \<open>The Nachos file system controller (code/filesys/filesys.cc)\<close>

text \<open>
  The development follows \<^verbatim>\<open>filesys.cc\<close> function by function. The classes the
  controller calls into (\<^verbatim>\<open>BitMap\<close>, \<^verbatim>\<open>FileHeader\<close>, \<^verbatim>\<open>Directory\<close>,
  \<^verbatim>\<open>OpenFile\<close>, the disk and the thread object) live in other files; they are
  modelled from the specification, each under a remark that starts
  ``Modelled from the spec''. Constants declared in absent headers are fields of a
  configuration record, so every theorem holds for all their values, or names
  the condition on them that it needs.

  A value of type \<open>'a option\<close> returned by a device-level primitive or by a
  controller operation is \<open>None\<close> when the run leaves what the specification
  describes: a sector number outside the device, a sector whose content is not
  the kind of object that is loaded from it, a transfer that the end of the file
  cuts inside a table, or a null pointer dereferenced without a check. The
  boolean and handle results of the source are ordinary values inside
  \<open>Some\<close>.
\<close>

subsection \<open>Constants\<close>

text \<open>The constants of the absent headers, taken as parameters: \<^verbatim>\<open>NumSectors\<close>
  and \<^verbatim>\<open>SectorSize\<close> (\<^verbatim>\<open>disk.h\<close>), \<^verbatim>\<open>BitsInByte\<close> (\<^verbatim>\<open>bitmap.h\<close>),
  \<^verbatim>\<open>sizeof(DirectoryEntry)\<close> (\<^verbatim>\<open>directory.h\<close>), the maximum file size
  (\<^verbatim>\<open>filehdr.h\<close>), \<^verbatim>\<open>MAX_OPEN_FILES\<close> and \<^verbatim>\<open>INVALID_FILE_HANDLE\<close>
  (\<^verbatim>\<open>filesys.h\<close>). The other constants are defined in \<^verbatim>\<open>filesys.cc\<close>.\<close>

record Config =
  NumSectors :: int
  SectorSize :: int
  BitsInByte :: int
  DirectoryEntrySize :: int
  MaxFileSize :: int
  MAX_OPEN_FILES :: nat
  INVALID_FILE_HANDLE :: int

definition FreeMapSector :: int where
  "FreeMapSector = 0"

definition DirectorySector :: int where
  "DirectorySector = 1"

definition NumDirEntries :: nat where
  "NumDirEntries = 10"

definition FreeMapFileSize :: "Config \<Rightarrow> int" where
  "FreeMapFileSize cfg = NumSectors cfg div BitsInByte cfg"

definition DirectoryFileSize :: "Config \<Rightarrow> int" where
  "DirectoryFileSize cfg = DirectoryEntrySize cfg * int NumDirEntries"

text \<open>Modelled from the spec: \<^verbatim>\<open>divRoundUp\<close> (\<^verbatim>\<open>utility.h\<close>) is missing. Section 4.2:
  \<^verbatim>\<open>ceil(numBytes / SectorSize)\<close>.\<close>

definition divRoundUp :: "int \<Rightarrow> int \<Rightarrow> int" where
  "divRoundUp n s = (n + (s - 1)) div s"

text \<open>Modelled from the spec: the declaration of the open-file table
  (\<^verbatim>\<open>filesys.h\<close>) is missing. Section 3 gives every slot a cursor; the source
  adds to it the \<^verbatim>\<open>int\<close> that a transfer returns. It is taken as an
  \<^verbatim>\<open>int\<close>, 32 bits wide in two's complement: \<open>int32 x\<close> is the value such a
  variable holds when the integer \<open>x\<close> is stored into it.\<close>

definition int32 :: "int \<Rightarrow> int" where
  "int32 x = (x + 2147483648) mod 4294967296 - 2147483648"

subsection \<open>Data model\<close>

datatype EntryType = FILE_TYPE | DIR_TYPE

record DirectoryEntry =
  de_inUse :: bool
  de_sector :: int
  de_name :: string
  de_type :: EntryType

type_synonym Directory = "DirectoryEntry list"

type_synonym BitMap = "bool list"

record FileHeader =
  fh_numBytes :: int
  fh_dataSectors :: "int list"

text \<open>What a sector of the device holds. The byte layout of headers, directory
  tables and bitmaps is not part of the controller; a sector that carries a
  portion of a directory table or of a bitmap is tagged with the object it
  belongs to.\<close>

datatype block =
    Blank
  | HeaderBlock FileHeader
  | DirectoryBlock Directory
  | BitMapBlock BitMap

text \<open>The device: the content of every sector, and the sector writes issued so
  far, oldest first.\<close>

record Disk =
  sectors :: "int \<Rightarrow> block"
  writes :: "(int \<times> block) list"

record OpenFile =
  of_hdr :: FileHeader
  of_seekPosition :: int

record OpenFileEntry =
  inUse :: bool
  openFile :: "OpenFile option"
  sector :: int
  filename :: string
  currentPosition :: int

record Thread =
  currentDirectory :: int

record FileSystem =
  disk :: Disk
  freeMapFile :: OpenFile
  directoryFile :: OpenFile
  openFilesTable :: "nat \<Rightarrow> OpenFileEntry"
  currentDirectorySector :: int
  currentThread :: "Thread option"

subsection \<open>The block device\<close>

text \<open>Modelled from the spec: the block device (\<^verbatim>\<open>disk.cc\<close>, \<^verbatim>\<open>synchdisk.cc\<close>)
  is missing. Section 6: \<^verbatim>\<open>ReadSector(index, buffer)\<close>,
  \<^verbatim>\<open>WriteSector(index, buffer)\<close>, with fixed \<^verbatim>\<open>NumSectors\<close>.\<close>

definition ReadSector :: "Config \<Rightarrow> Disk \<Rightarrow> int \<Rightarrow> block option" where
  "ReadSector cfg d s =
     (if 0 \<le> s \<and> s < NumSectors cfg then Some (sectors d s) else None)"

definition WriteSector :: "Config \<Rightarrow> int \<Rightarrow> block \<Rightarrow> Disk \<Rightarrow> Disk option" where
  "WriteSector cfg s b d =
     (if 0 \<le> s \<and> s < NumSectors cfg
      then Some (d\<lparr>sectors := (sectors d)(s := b), writes := writes d @ [(s, b)]\<rparr>)
      else None)"

subsection \<open>FileHeader\<close>

text \<open>Modelled from the spec: \<^verbatim>\<open>filehdr.cc\<close> is missing. Section 3: a header is
  stored at a dedicated sector, persisted by \<^verbatim>\<open>WriteBack(sector)\<close> and loaded by
  \<^verbatim>\<open>FetchFrom(sector)\<close>.\<close>

definition FileHeader_FetchFrom :: "Config \<Rightarrow> Disk \<Rightarrow> int \<Rightarrow> FileHeader option" where
  "FileHeader_FetchFrom cfg d s =
     (case ReadSector cfg d s of
        Some (HeaderBlock h) \<Rightarrow> Some h
      | _ \<Rightarrow> None)"

definition FileHeader_WriteBack :: "Config \<Rightarrow> FileHeader \<Rightarrow> int \<Rightarrow> Disk \<Rightarrow> Disk option" where
  "FileHeader_WriteBack cfg h s d = WriteSector cfg s (HeaderBlock h) d"

subsection \<open>OpenFile\<close>

text \<open>Modelled from the spec: \<^verbatim>\<open>openfile.cc\<close> is missing. Section 4.4: an I/O
  object bound to the sector of a file header; section 3: the data of a file is
  held by the sectors of its header's sector list. Opening loads the header.\<close>

definition OpenFile_new :: "Config \<Rightarrow> Disk \<Rightarrow> int \<Rightarrow> OpenFile option" where
  "OpenFile_new cfg d s =
     (case FileHeader_FetchFrom cfg d s of
        None \<Rightarrow> None
      | Some h \<Rightarrow> Some \<lparr>of_hdr = h, of_seekPosition = 0\<rparr>)"

text \<open>Modelled from the spec: the transfers of \<^verbatim>\<open>OpenFile\<close> that load and
  persist a directory table or a bitmap (sections 4.1 and 4.3) start at byte 0 of
  the file. Section 3: a file has a byte length, and its bytes are held, in
  order, by the sectors of its sector list. A transfer of \<open>numBytes\<close> bytes
  moves nothing when \<open>numBytes\<close> is not positive or the file is empty, and it
  stops at the end of the file. The tables have no byte layout here, so a
  transfer that the end of the file cuts inside the table is outside the model;
  a whole transfer touches the leading sectors of the list that hold
  \<open>numBytes\<close> bytes.\<close>

definition transfer_sectors :: "Config \<Rightarrow> OpenFile \<Rightarrow> int \<Rightarrow> int list option" where
  "transfer_sectors cfg f numBytes =
     (let fileLength = fh_numBytes (of_hdr f) in
      if numBytes \<le> 0 \<or> fileLength \<le> 0 then Some []
      else if fileLength < numBytes \<or> SectorSize cfg \<le> 0 then None
      else
        let n = nat (divRoundUp numBytes (SectorSize cfg)) in
        if n \<le> length (fh_dataSectors (of_hdr f))
        then Some (take n (fh_dataSectors (of_hdr f)))
        else None)"

fun write_blocks :: "Config \<Rightarrow> int list \<Rightarrow> block \<Rightarrow> Disk \<Rightarrow> Disk option" where
  "write_blocks cfg [] b d = Some d"
| "write_blocks cfg (s # ss) b d =
     (case WriteSector cfg s b d of
        None \<Rightarrow> None
      | Some d' \<Rightarrow> write_blocks cfg ss b d')"

text \<open>Persisting an object of \<open>numBytes\<close> bytes: every sector the transfer
  touches is written and carries the object from then on.\<close>

definition file_store :: "Config \<Rightarrow> OpenFile \<Rightarrow> int \<Rightarrow> block \<Rightarrow> Disk \<Rightarrow> Disk option" where
  "file_store cfg f numBytes b d =
     (case transfer_sectors cfg f numBytes of
        None \<Rightarrow> None
      | Some ss \<Rightarrow> write_blocks cfg ss b d)"

fun read_blocks :: "Config \<Rightarrow> Disk \<Rightarrow> int list \<Rightarrow> block list option" where
  "read_blocks cfg d [] = Some []"
| "read_blocks cfg d (s # ss) =
     (case ReadSector cfg d s of
        None \<Rightarrow> None
      | Some b \<Rightarrow>
          (case read_blocks cfg d ss of
             None \<Rightarrow> None
           | Some bs \<Rightarrow> Some (b # bs)))"

text \<open>Loading an object of \<open>numBytes\<close> bytes reads every sector the transfer
  touches: no sector when nothing moves.\<close>

definition file_load :: "Config \<Rightarrow> OpenFile \<Rightarrow> int \<Rightarrow> Disk \<Rightarrow> block list option" where
  "file_load cfg f numBytes d =
     (case transfer_sectors cfg f numBytes of
        None \<Rightarrow> None
      | Some ss \<Rightarrow> read_blocks cfg d ss)"

subsection \<open>The open-file table and the handle operations\<close>

text \<open>Modelled from the spec: the transfer routines of \<^verbatim>\<open>OpenFile\<close> are missing,
  and the specification says nothing about the bytes they move. They are
  parameters: each takes the I/O object, the caller's buffer, the byte count, for
  the positional ones the position, and the device, and returns the number of
  bytes transferred with the I/O object and the device as it left them. The
  bytes delivered to the caller's buffer are not part of the file system's
  state.\<close>

record 'b FileIO =
  io_Read :: "OpenFile \<Rightarrow> 'b \<Rightarrow> int \<Rightarrow> Disk \<Rightarrow> int \<times> OpenFile \<times> Disk"
  io_Write :: "OpenFile \<Rightarrow> 'b \<Rightarrow> int \<Rightarrow> Disk \<Rightarrow> int \<times> OpenFile \<times> Disk"
  io_ReadAt :: "OpenFile \<Rightarrow> 'b \<Rightarrow> int \<Rightarrow> int \<Rightarrow> Disk \<Rightarrow> int \<times> OpenFile \<times> Disk"
  io_WriteAt :: "OpenFile \<Rightarrow> 'b \<Rightarrow> int \<Rightarrow> int \<Rightarrow> Disk \<Rightarrow> int \<times> OpenFile \<times> Disk"

definition free_entry :: OpenFileEntry where
  "free_entry = \<lparr>inUse = False, openFile = None, sector = - 1, filename = [],
                 currentPosition = 0\<rparr>"

definition InitializeOpenFilesTable :: "Config \<Rightarrow> (nat \<Rightarrow> OpenFileEntry) \<Rightarrow> nat \<Rightarrow> OpenFileEntry" where
  "InitializeOpenFilesTable cfg t =
     fold (\<lambda>i t. t(i := free_entry)) [0..<MAX_OPEN_FILES cfg] t"

definition FindFreeSlot :: "Config \<Rightarrow> FileSystem \<Rightarrow> int" where
  "FindFreeSlot cfg fs =
     (case find (\<lambda>i. \<not> inUse (openFilesTable fs i)) [0..<MAX_OPEN_FILES cfg] of
        Some i \<Rightarrow> int i
      | None \<Rightarrow> INVALID_FILE_HANDLE cfg)"

definition IsValidHandle :: "Config \<Rightarrow> FileSystem \<Rightarrow> int \<Rightarrow> bool" where
  "IsValidHandle cfg fs handle =
     (handle \<ge> 0 \<and> handle < int (MAX_OPEN_FILES cfg) \<and>
      inUse (openFilesTable fs (nat handle)) \<and>
      openFile (openFilesTable fs (nat handle)) \<noteq> None)"

text \<open>The slot of a valid handle after a transfer: the I/O object as the
  transfer left it, and the cursor as given.\<close>

definition set_slot :: "FileSystem \<Rightarrow> int \<Rightarrow> OpenFile \<Rightarrow> int \<Rightarrow> Disk \<Rightarrow> FileSystem" where
  "set_slot fs file f pos d =
     fs\<lparr>disk := d,
        openFilesTable := (openFilesTable fs)
          (nat file := (openFilesTable fs (nat file))\<lparr>openFile := Some f, currentPosition := pos\<rparr>)\<rparr>"

definition Read :: "'b FileIO \<Rightarrow> Config \<Rightarrow> int \<Rightarrow> 'b option \<Rightarrow> int \<Rightarrow> FileSystem
    \<Rightarrow> int \<times> FileSystem" where
  "Read io cfg file into numBytes fs =
     (if \<not> IsValidHandle cfg fs file then (0, fs)
      else case into of
        None \<Rightarrow> (0, fs)
      | Some buf \<Rightarrow>
          (case openFile (openFilesTable fs (nat file)) of
             None \<Rightarrow> (0, fs)
           | Some f \<Rightarrow>
               (case io_Read io f buf numBytes (disk fs) of
                  (bytesRead, f', d') \<Rightarrow>
                    (bytesRead,
                     set_slot fs file f'
                       (int32 (currentPosition (openFilesTable fs (nat file)) + bytesRead)) d'))))"

definition Write :: "'b FileIO \<Rightarrow> Config \<Rightarrow> int \<Rightarrow> 'b option \<Rightarrow> int \<Rightarrow> FileSystem
    \<Rightarrow> int \<times> FileSystem" where
  "Write io cfg file from numBytes fs =
     (if \<not> IsValidHandle cfg fs file then (0, fs)
      else case from of
        None \<Rightarrow> (0, fs)
      | Some buf \<Rightarrow>
          (case openFile (openFilesTable fs (nat file)) of
             None \<Rightarrow> (0, fs)
           | Some f \<Rightarrow>
               (case io_Write io f buf numBytes (disk fs) of
                  (bytesWritten, f', d') \<Rightarrow>
                    (bytesWritten,
                     set_slot fs file f'
                       (int32 (currentPosition (openFilesTable fs (nat file)) + bytesWritten)) d'))))"

definition ReadAt :: "'b FileIO \<Rightarrow> Config \<Rightarrow> int \<Rightarrow> 'b option \<Rightarrow> int \<Rightarrow> int \<Rightarrow> FileSystem
    \<Rightarrow> int \<times> FileSystem" where
  "ReadAt io cfg file into numBytes position fs =
     (if \<not> IsValidHandle cfg fs file then (0, fs)
      else case into of
        None \<Rightarrow> (0, fs)
      | Some buf \<Rightarrow>
          (case openFile (openFilesTable fs (nat file)) of
             None \<Rightarrow> (0, fs)
           | Some f \<Rightarrow>
               (case io_ReadAt io f buf numBytes position (disk fs) of
                  (bytesRead, f', d') \<Rightarrow>
                    (bytesRead,
                     set_slot fs file f'
                       (int32 (currentPosition (openFilesTable fs (nat file)) + bytesRead)) d'))))"

definition WriteAt :: "'b FileIO \<Rightarrow> Config \<Rightarrow> int \<Rightarrow> 'b option \<Rightarrow> int \<Rightarrow> int \<Rightarrow> FileSystem
    \<Rightarrow> int \<times> FileSystem" where
  "WriteAt io cfg file from numBytes position fs =
     (if \<not> IsValidHandle cfg fs file then (0, fs)
      else case from of
        None \<Rightarrow> (0, fs)
      | Some buf \<Rightarrow>
          (case openFile (openFilesTable fs (nat file)) of
             None \<Rightarrow> (0, fs)
           | Some f \<Rightarrow>
               (case io_WriteAt io f buf numBytes position (disk fs) of
                  (bytesWritten, f', d') \<Rightarrow>
                    (bytesWritten,
                     set_slot fs file f'
                       (currentPosition (openFilesTable fs (nat file))) d'))))"

subsection \<open>The execution context\<close>

text \<open>Modelled from the spec: the thread object (\<^verbatim>\<open>thread.h\<close>) is missing.
  Section 6: \<^verbatim>\<open>GetCurrentDirectory() -> sector\<close>, \<^verbatim>\<open>SetCurrentDirectory(sector)\<close>,
  an integer the controller reads and writes. The source reaches it through the
  global pointer \<^verbatim>\<open>currentThread\<close>, which only \<^verbatim>\<open>CreateDirectory\<close> tests for
  null.\<close>

definition GetCurrentDirectory :: "FileSystem \<Rightarrow> int option" where
  "GetCurrentDirectory fs =
     (case currentThread fs of
        None \<Rightarrow> None
      | Some t \<Rightarrow> Some (currentDirectory t))"

definition SetCurrentDirectory :: "int \<Rightarrow> FileSystem \<Rightarrow> FileSystem option" where
  "SetCurrentDirectory sec fs =
     (case currentThread fs of
        None \<Rightarrow> None
      | Some t \<Rightarrow> Some (fs\<lparr>currentThread := Some (t\<lparr>currentDirectory := sec\<rparr>)\<rparr>))"

subsection \<open>BitMap\<close>

text \<open>Modelled from the spec: \<^verbatim>\<open>bitmap.cc\<close> is missing. Section 4.1: one bit per
  sector, set when the sector is in use; \<^verbatim>\<open>Mark\<close> reserves, \<^verbatim>\<open>Clear\<close> frees,
  \<^verbatim>\<open>Find\<close> returns the first unused sector or none, \<^verbatim>\<open>FetchFrom\<close> and
  \<^verbatim>\<open>WriteBack\<close> load and persist the whole map. \<^verbatim>\<open>Find\<close> is what section 4.5
  allocates the header sector with, so the sector it returns is marked. A bit
  number outside the map is outside the contract. The map takes one bit per
  sector, so \<^verbatim>\<open>ceil(bits / BitsInByte)\<close> bytes of its file. \<^verbatim>\<open>FetchFrom\<close> fills
  the map it is called on: when nothing is read the map stays as it was, and
  what is read has to be a map of the same number of bits.\<close>

definition BitMap_new :: "int \<Rightarrow> BitMap" where
  "BitMap_new nitems = replicate (nat nitems) False"

definition Mark :: "BitMap \<Rightarrow> int \<Rightarrow> BitMap option" where
  "Mark bm which =
     (if 0 \<le> which \<and> which < int (length bm) then Some (bm[nat which := True]) else None)"

definition Clear :: "BitMap \<Rightarrow> int \<Rightarrow> BitMap option" where
  "Clear bm which =
     (if 0 \<le> which \<and> which < int (length bm) then Some (bm[nat which := False]) else None)"

definition Test :: "BitMap \<Rightarrow> int \<Rightarrow> bool" where
  "Test bm which = (0 \<le> which \<and> which < int (length bm) \<and> bm ! nat which)"

fun first_clear :: "BitMap \<Rightarrow> nat option" where
  "first_clear [] = None"
| "first_clear (b # bs) =
     (if \<not> b then Some 0
      else case first_clear bs of None \<Rightarrow> None | Some i \<Rightarrow> Some (Suc i))"

definition BitMap_Find :: "BitMap \<Rightarrow> int \<times> BitMap" where
  "BitMap_Find bm =
     (case first_clear bm of
        None \<Rightarrow> (- 1, bm)
      | Some i \<Rightarrow> (int i, bm[i := True]))"

definition NumClear :: "BitMap \<Rightarrow> nat" where
  "NumClear bm = length (filter Not bm)"

definition map_bytes :: "Config \<Rightarrow> BitMap \<Rightarrow> int" where
  "map_bytes cfg bm = divRoundUp (int (length bm)) (BitsInByte cfg)"

definition BitMap_FetchFrom :: "Config \<Rightarrow> BitMap \<Rightarrow> OpenFile \<Rightarrow> Disk \<Rightarrow> BitMap option" where
  "BitMap_FetchFrom cfg bm f d =
     (case file_load cfg f (map_bytes cfg bm) d of
        None \<Rightarrow> None
      | Some [] \<Rightarrow> Some bm
      | Some (b # bs) \<Rightarrow>
          (case b of
             BitMapBlock bm' \<Rightarrow>
               if list_all (\<lambda>x. x = b) bs \<and> length bm' = length bm then Some bm' else None
           | _ \<Rightarrow> None))"

definition BitMap_WriteBack :: "Config \<Rightarrow> BitMap \<Rightarrow> OpenFile \<Rightarrow> Disk \<Rightarrow> Disk option" where
  "BitMap_WriteBack cfg bm f d = file_store cfg f (map_bytes cfg bm) (BitMapBlock bm) d"

subsection \<open>Allocation of a file's data sectors\<close>

text \<open>Modelled from the spec: \<^verbatim>\<open>FileHeader::Allocate\<close> and
  \<^verbatim>\<open>FileHeader::Deallocate\<close> are missing. Section 4.2: \<^verbatim>\<open>Allocate\<close> computes
  \<^verbatim>\<open>ceil(numBytes / SectorSize)\<close>, fails when the free sectors are too few or
  \<^verbatim>\<open>numBytes\<close> exceeds the maximum size, and otherwise marks each chosen sector
  and records the list; \<^verbatim>\<open>Deallocate\<close> clears every recorded sector. The result
  \<open>None\<close> of \<open>Allocate\<close> is the result FALSE of the source, with the
  allocator as it was.\<close>

fun find_sectors :: "nat \<Rightarrow> BitMap \<Rightarrow> int list \<times> BitMap" where
  "find_sectors 0 bm = ([], bm)"
| "find_sectors (Suc n) bm =
     (case BitMap_Find bm of
        (s, bm') \<Rightarrow> (case find_sectors n bm' of (ss, bm'') \<Rightarrow> (s # ss, bm'')))"

definition Allocate :: "Config \<Rightarrow> BitMap \<Rightarrow> int \<Rightarrow> (FileHeader \<times> BitMap) option" where
  "Allocate cfg freeMap fileSize =
     (let numSectors = divRoundUp fileSize (SectorSize cfg) in
      if fileSize > MaxFileSize cfg \<or> int (NumClear freeMap) < numSectors then None
      else case find_sectors (nat numSectors) freeMap of
             (ss, freeMap') \<Rightarrow> Some (\<lparr>fh_numBytes = fileSize, fh_dataSectors = ss\<rparr>, freeMap'))"

fun clear_sectors :: "int list \<Rightarrow> BitMap \<Rightarrow> BitMap option" where
  "clear_sectors [] bm = Some bm"
| "clear_sectors (s # ss) bm =
     (case Clear bm s of
        None \<Rightarrow> None
      | Some bm' \<Rightarrow> clear_sectors ss bm')"

definition Deallocate :: "FileHeader \<Rightarrow> BitMap \<Rightarrow> BitMap option" where
  "Deallocate h freeMap = clear_sectors (fh_dataSectors h) freeMap"

subsection \<open>Directory\<close>

text \<open>Modelled from the spec: \<^verbatim>\<open>directory.cc\<close> is missing. Section 4.3: a table
  of \<^verbatim>\<open>NumDirEntries\<close> slots; \<^verbatim>\<open>Find\<close> scans the active entries for an exact
  name match and returns the sector, or not found (the source tests the result
  against \<open>-1\<close>); \<^verbatim>\<open>Add\<close> fails if the name is already present or no free slot
  remains; \<^verbatim>\<open>Remove\<close> marks the matching entry inactive and does nothing if it
  is absent; \<^verbatim>\<open>GetEntryType\<close> returns FILE, DIR or not found; \<^verbatim>\<open>FetchFrom\<close>
  and \<^verbatim>\<open>WriteBack\<close> load and persist all entries from and to the directory's
  file. A new table has no active entry. The table takes
  \<^verbatim>\<open>sizeof(DirectoryEntry)\<close> bytes per slot. \<^verbatim>\<open>FetchFrom\<close> fills the table it is
  called on: when nothing is read the table stays as it was, and what is read
  has to be a table of the same number of slots.\<close>

definition Directory_new :: "nat \<Rightarrow> Directory" where
  "Directory_new n =
     replicate n \<lparr>de_inUse = False, de_sector = 0, de_name = [], de_type = FILE_TYPE\<rparr>"

definition matches :: "string \<Rightarrow> DirectoryEntry \<Rightarrow> bool" where
  "matches name e = (de_inUse e \<and> de_name e = name)"

definition Directory_Find :: "Directory \<Rightarrow> string \<Rightarrow> int" where
  "Directory_Find dir name =
     (case find (matches name) dir of
        None \<Rightarrow> - 1
      | Some e \<Rightarrow> de_sector e)"

definition GetEntryType :: "Directory \<Rightarrow> string \<Rightarrow> EntryType option" where
  "GetEntryType dir name =
     (case find (matches name) dir of
        None \<Rightarrow> None
      | Some e \<Rightarrow> Some (de_type e))"

fun fill_free :: "DirectoryEntry \<Rightarrow> Directory \<Rightarrow> Directory option" where
  "fill_free e [] = None"
| "fill_free e (x # xs) =
     (if \<not> de_inUse x then Some (e # xs)
      else case fill_free e xs of None \<Rightarrow> None | Some xs' \<Rightarrow> Some (x # xs'))"

definition Directory_Add :: "Directory \<Rightarrow> string \<Rightarrow> int \<Rightarrow> EntryType \<Rightarrow> bool \<times> Directory" where
  "Directory_Add dir name newSector type =
     (if find (matches name) dir \<noteq> None then (False, dir)
      else case fill_free \<lparr>de_inUse = True, de_sector = newSector, de_name = name,
                            de_type = type\<rparr> dir of
             None \<Rightarrow> (False, dir)
           | Some dir' \<Rightarrow> (True, dir'))"

fun Directory_Remove :: "Directory \<Rightarrow> string \<Rightarrow> Directory" where
  "Directory_Remove [] name = []"
| "Directory_Remove (x # xs) name =
     (if matches name x then x\<lparr>de_inUse := False\<rparr> # xs
      else x # Directory_Remove xs name)"

definition table_bytes :: "Config \<Rightarrow> Directory \<Rightarrow> int" where
  "table_bytes cfg dir = DirectoryEntrySize cfg * int (length dir)"

definition Directory_FetchFrom :: "Config \<Rightarrow> Directory \<Rightarrow> OpenFile \<Rightarrow> Disk
    \<Rightarrow> Directory option" where
  "Directory_FetchFrom cfg dir f d =
     (case file_load cfg f (table_bytes cfg dir) d of
        None \<Rightarrow> None
      | Some [] \<Rightarrow> Some dir
      | Some (b # bs) \<Rightarrow>
          (case b of
             DirectoryBlock dir' \<Rightarrow>
               if list_all (\<lambda>x. x = b) bs \<and> length dir' = length dir then Some dir' else None
           | _ \<Rightarrow> None))"

definition Directory_WriteBack :: "Config \<Rightarrow> Directory \<Rightarrow> OpenFile \<Rightarrow> Disk \<Rightarrow> Disk option" where
  "Directory_WriteBack cfg dir f d =
     file_store cfg f (table_bytes cfg dir) (DirectoryBlock dir) d"

subsection \<open>FileSystem::FileSystem\<close>

text \<open>The constructor receives the device and the current thread and returns the
  file system object. A failed \<^verbatim>\<open>ASSERT\<close> ends the run (\<open>None\<close>). The two
  calls of \<^verbatim>\<open>Add\<close> discard the result.\<close>

definition FileSystem_new :: "Config \<Rightarrow> bool \<Rightarrow> Disk \<Rightarrow> Thread option \<Rightarrow> FileSystem option" where
  "FileSystem_new cfg format d0 thr =
     do {
       (d, fmFile, dirFile) \<leftarrow>
         (if format then
            do {
              let freeMap = BitMap_new (NumSectors cfg);
              let directory = Directory_new NumDirEntries;
              freeMap \<leftarrow> Mark freeMap FreeMapSector;
              freeMap \<leftarrow> Mark freeMap DirectorySector;
              (mapHdr, freeMap) \<leftarrow> Allocate cfg freeMap (FreeMapFileSize cfg);
              (dirHdr, freeMap) \<leftarrow> Allocate cfg freeMap (DirectoryFileSize cfg);
              d \<leftarrow> FileHeader_WriteBack cfg mapHdr FreeMapSector d0;
              d \<leftarrow> FileHeader_WriteBack cfg dirHdr DirectorySector d;
              fmFile \<leftarrow> OpenFile_new cfg d FreeMapSector;
              dirFile \<leftarrow> OpenFile_new cfg d DirectorySector;
              d \<leftarrow> Directory_WriteBack cfg directory dirFile d;
              let directory = snd (Directory_Add directory ''.'' DirectorySector DIR_TYPE);
              let directory = snd (Directory_Add directory ''..'' DirectorySector DIR_TYPE);
              d \<leftarrow> BitMap_WriteBack cfg freeMap fmFile d;
              d \<leftarrow> Directory_WriteBack cfg directory dirFile d;
              Some (d, fmFile, dirFile)
            }
          else
            do {
              fmFile \<leftarrow> OpenFile_new cfg d0 FreeMapSector;
              dirFile \<leftarrow> OpenFile_new cfg d0 DirectorySector;
              Some (d0, fmFile, dirFile)
            });
       t \<leftarrow> thr;
       let t = t\<lparr>currentDirectory := DirectorySector\<rparr>;
       Some \<lparr>disk = d, freeMapFile = fmFile, directoryFile = dirFile,
             openFilesTable = InitializeOpenFilesTable cfg (\<lambda>i. free_entry),
             currentDirectorySector = currentDirectory t,
             currentThread = Some t\<rparr>
     }"

subsection \<open>FileSystem::ChangeDirectory\<close>

text \<open>A name is a \<^verbatim>\<open>char *\<close>: \<open>None\<close> is the null pointer.\<close>

definition ChangeDirectory :: "Config \<Rightarrow> string option \<Rightarrow> FileSystem \<Rightarrow> (bool \<times> FileSystem) option" where
  "ChangeDirectory cfg name fs =
     (case name of
        None \<Rightarrow> Some (False, fs)
      | Some nm \<Rightarrow>
          if length nm = 0 then Some (False, fs)
          else do {
            currentSector \<leftarrow> GetCurrentDirectory fs;
            if currentSector < 0 \<or> currentSector \<ge> NumSectors cfg then Some (False, fs)
            else do {
              currentDirFile \<leftarrow> OpenFile_new cfg (disk fs) currentSector;
              currentDir \<leftarrow>
                Directory_FetchFrom cfg (Directory_new NumDirEntries) currentDirFile (disk fs);
              let sec = Directory_Find currentDir nm;
              if sec = - 1 then Some (False, fs)
              else if GetEntryType currentDir nm \<noteq> Some DIR_TYPE then Some (False, fs)
              else if sec < 0 \<or> sec \<ge> NumSectors cfg then Some (False, fs)
              else do {
                fs' \<leftarrow> SetCurrentDirectory sec fs;
                Some (True, fs')
              }
            }
          })"

subsection \<open>FileSystem::CreateDirectory\<close>

text \<open>The source tests neither the name nor the upper bound of the parent
  sector.\<close>

definition CreateDirectory :: "Config \<Rightarrow> string option \<Rightarrow> FileSystem \<Rightarrow> (bool \<times> FileSystem) option" where
  "CreateDirectory cfg name fs =
     (case currentThread fs of
        None \<Rightarrow> Some (False, fs)
      | Some t \<Rightarrow>
          let parentSector = currentDirectory t in
          if parentSector < 0 then Some (False, fs)
          else do {
            parentDirectoryFile \<leftarrow> OpenFile_new cfg (disk fs) parentSector;
            parentDirectory \<leftarrow>
              Directory_FetchFrom cfg (Directory_new NumDirEntries) parentDirectoryFile (disk fs);
            nm \<leftarrow> name;
            if Directory_Find parentDirectory nm \<noteq> - 1 then Some (False, fs)
            else do {
              freeMap \<leftarrow>
                BitMap_FetchFrom cfg (BitMap_new (NumSectors cfg)) (freeMapFile fs) (disk fs);
              (sec, freeMap) \<leftarrow> Some (BitMap_Find freeMap);
              if sec = - 1 then Some (False, fs)
              else case Directory_Add parentDirectory nm sec DIR_TYPE of
                (added, parentDirectory) \<Rightarrow>
                  if \<not> added then Some (False, fs)
                  else
                    (case Allocate cfg freeMap (DirectoryFileSize cfg) of
                       None \<Rightarrow> Some (False, fs)
                     | Some (newHdr, freeMap) \<Rightarrow>
                         do {
                           d \<leftarrow> FileHeader_WriteBack cfg newHdr sec (disk fs);
                           let newDirectory = Directory_new NumDirEntries;
                           let newDirectory = snd (Directory_Add newDirectory ''.'' sec DIR_TYPE);
                           let newDirectory =
                             snd (Directory_Add newDirectory ''..'' parentSector DIR_TYPE);
                           newDirFile \<leftarrow> OpenFile_new cfg d sec;
                           d \<leftarrow> Directory_WriteBack cfg newDirectory newDirFile d;
                           d \<leftarrow> Directory_WriteBack cfg parentDirectory parentDirectoryFile d;
                           d \<leftarrow> BitMap_WriteBack cfg freeMap (freeMapFile fs) d;
                           Some (True, fs\<lparr>disk := d\<rparr>)
                         })
            }
          })"

subsection \<open>FileSystem::Create\<close>

definition Create :: "Config \<Rightarrow> string option \<Rightarrow> int \<Rightarrow> FileSystem \<Rightarrow> (bool \<times> FileSystem) option" where
  "Create cfg name initialSize fs =
     (case name of
        None \<Rightarrow> Some (False, fs)
      | Some nm \<Rightarrow>
          if length nm = 0 then Some (False, fs)
          else if initialSize < 0 then Some (False, fs)
          else do {
            currentSector \<leftarrow> GetCurrentDirectory fs;
            if currentSector < 0 \<or> currentSector \<ge> NumSectors cfg then Some (False, fs)
            else do {
              currentDirFile \<leftarrow> OpenFile_new cfg (disk fs) currentSector;
              directory \<leftarrow>
                Directory_FetchFrom cfg (Directory_new NumDirEntries) currentDirFile (disk fs);
              if Directory_Find directory nm \<noteq> - 1 then Some (False, fs)
              else do {
                freeMap \<leftarrow>
                  BitMap_FetchFrom cfg (BitMap_new (NumSectors cfg)) (freeMapFile fs) (disk fs);
                (sec, freeMap) \<leftarrow> Some (BitMap_Find freeMap);
                if sec = - 1 then Some (False, fs)
                else case Directory_Add directory nm sec FILE_TYPE of
                  (added, directory) \<Rightarrow>
                    if \<not> added then Some (False, fs)
                    else
                      (case Allocate cfg freeMap initialSize of
                         None \<Rightarrow> Some (False, fs)
                       | Some (newHdr, freeMap) \<Rightarrow>
                           do {
                             d \<leftarrow> FileHeader_WriteBack cfg newHdr sec (disk fs);
                             d \<leftarrow> Directory_WriteBack cfg directory currentDirFile d;
                             d \<leftarrow> BitMap_WriteBack cfg freeMap (freeMapFile fs) d;
                             Some (True, fs\<lparr>disk := d\<rparr>)
                           })
              }
            }
          })"

subsection \<open>FileSystem::Open\<close>

definition Open :: "Config \<Rightarrow> string option \<Rightarrow> FileSystem \<Rightarrow> (int \<times> FileSystem) option" where
  "Open cfg name fs =
     (case name of
        None \<Rightarrow> Some (INVALID_FILE_HANDLE cfg, fs)
      | Some nm \<Rightarrow>
          if length nm = 0 then Some (INVALID_FILE_HANDLE cfg, fs)
          else do {
            currentSector \<leftarrow> GetCurrentDirectory fs;
            currentDirFile \<leftarrow> OpenFile_new cfg (disk fs) currentSector;
            directory \<leftarrow>
              Directory_FetchFrom cfg (Directory_new NumDirEntries) currentDirFile (disk fs);
            let sec = Directory_Find directory nm;
            if sec = - 1 then Some (INVALID_FILE_HANDLE cfg, fs)
            else
              case find (\<lambda>i. inUse (openFilesTable fs i) \<and> sector (openFilesTable fs i) = sec)
                     [0..<MAX_OPEN_FILES cfg] of
                Some i \<Rightarrow> Some (int i, fs)
              | None \<Rightarrow>
                  let handle = FindFreeSlot cfg fs in
                  if handle = INVALID_FILE_HANDLE cfg then Some (INVALID_FILE_HANDLE cfg, fs)
                  else do {
                    file \<leftarrow> OpenFile_new cfg (disk fs) sec;
                    Some (handle,
                          fs\<lparr>openFilesTable := (openFilesTable fs)
                               (nat handle :=
                                  \<lparr>inUse = True, openFile = Some file, sector = sec,
                                   filename = take 31 nm, currentPosition = 0\<rparr>)\<rparr>)
                  }
          })"

subsection \<open>FileSystem::Remove\<close>

definition Remove :: "Config \<Rightarrow> string option \<Rightarrow> FileSystem \<Rightarrow> (bool \<times> FileSystem) option" where
  "Remove cfg name fs =
     (case name of
        None \<Rightarrow> Some (False, fs)
      | Some nm \<Rightarrow>
          if length nm = 0 then Some (False, fs)
          else do {
            currentSector \<leftarrow> GetCurrentDirectory fs;
            if currentSector < 0 \<or> currentSector \<ge> NumSectors cfg then Some (False, fs)
            else do {
              currentDirFile \<leftarrow> OpenFile_new cfg (disk fs) currentSector;
              directory \<leftarrow>
                Directory_FetchFrom cfg (Directory_new NumDirEntries) currentDirFile (disk fs);
              let sec = Directory_Find directory nm;
              if sec = - 1 then Some (False, fs)
              else do {
                fileHdr \<leftarrow> FileHeader_FetchFrom cfg (disk fs) sec;
                freeMap \<leftarrow>
                  BitMap_FetchFrom cfg (BitMap_new (NumSectors cfg)) (freeMapFile fs) (disk fs);
                freeMap \<leftarrow> Deallocate fileHdr freeMap;
                freeMap \<leftarrow> Clear freeMap sec;
                let directory = Directory_Remove directory nm;
                d \<leftarrow> BitMap_WriteBack cfg freeMap (freeMapFile fs) (disk fs);
                d \<leftarrow> Directory_WriteBack cfg directory currentDirFile d;
                Some (True, fs\<lparr>disk := d\<rparr>)
              }
            }
          })"

section \<open>Observations used to state the properties\<close>

definition in_range :: "Config \<Rightarrow> int \<Rightarrow> bool" where
  "in_range cfg s = (0 \<le> s \<and> s < NumSectors cfg)"

text \<open>The persisted free-space map: what \<^verbatim>\<open>FetchFrom(freeMapFile)\<close> loads into a
  new map.\<close>

definition free_space_map :: "Config \<Rightarrow> FileSystem \<Rightarrow> BitMap option" where
  "free_space_map cfg fs =
     BitMap_FetchFrom cfg (BitMap_new (NumSectors cfg)) (freeMapFile fs) (disk fs)"

text \<open>The persisted directory whose header is at a sector: open the file, load
  the table into a new one. The persisted current directory is the one at the
  sector of the execution context.\<close>

definition directory_at :: "Config \<Rightarrow> Disk \<Rightarrow> int \<Rightarrow> Directory option" where
  "directory_at cfg d s =
     do {
       f \<leftarrow> OpenFile_new cfg d s;
       Directory_FetchFrom cfg (Directory_new NumDirEntries) f d
     }"

definition current_directory :: "Config \<Rightarrow> FileSystem \<Rightarrow> Directory option" where
  "current_directory cfg fs =
     do {
       cur \<leftarrow> GetCurrentDirectory fs;
       directory_at cfg (disk fs) cur
     }"

text \<open>What a name resolves to in the persisted current directory (\<open>-1\<close> when it
  is not there), whether the persisted free-space map marks a sector, and the
  active entries of the persisted directory at a sector.\<close>

definition resolves :: "Config \<Rightarrow> FileSystem \<Rightarrow> string \<Rightarrow> int option" where
  "resolves cfg fs nm = map_option (\<lambda>dir. Directory_Find dir nm) (current_directory cfg fs)"

definition marks :: "Config \<Rightarrow> FileSystem \<Rightarrow> int \<Rightarrow> bool option" where
  "marks cfg fs s = map_option (\<lambda>bm. Test bm s) (free_space_map cfg fs)"

definition active_entries :: "Config \<Rightarrow> Disk \<Rightarrow> int \<Rightarrow> Directory option" where
  "active_entries cfg d s = map_option (filter de_inUse) (directory_at cfg d s)"

text \<open>The two reserved entries of a directory at sector \<open>self\<close> below the
  directory at sector \<open>parent\<close>.\<close>

definition dot_entries :: "int \<Rightarrow> int \<Rightarrow> Directory" where
  "dot_entries self parent =
     [\<lparr>de_inUse = True, de_sector = self, de_name = ''.'', de_type = DIR_TYPE\<rparr>,
      \<lparr>de_inUse = True, de_sector = parent, de_name = ''..'', de_type = DIR_TYPE\<rparr>]"

text \<open>The sectors that hold the table of a directory file, and those that hold
  the free-space map in the map file.\<close>

definition table_sectors :: "Config \<Rightarrow> OpenFile \<Rightarrow> int list option" where
  "table_sectors cfg f = transfer_sectors cfg f (table_bytes cfg (Directory_new NumDirEntries))"

definition map_sectors :: "Config \<Rightarrow> OpenFile \<Rightarrow> int list option" where
  "map_sectors cfg f = transfer_sectors cfg f (map_bytes cfg (BitMap_new (NumSectors cfg)))"

text \<open>The metadata the operations rely on is in place: the file of the current
  directory holds a whole table and the map file a whole map (neither file is
  empty or too short, and the table and the map load), and the persisted
  free-space map marks the header sector of the current directory, the sectors
  that hold its table and the sectors that hold the map.\<close>

definition metadata_intact :: "Config \<Rightarrow> FileSystem \<Rightarrow> bool" where
  "metadata_intact cfg fs =
     (case GetCurrentDirectory fs of
        None \<Rightarrow> False
      | Some cur \<Rightarrow>
          (case OpenFile_new cfg (disk fs) cur of
             None \<Rightarrow> False
           | Some f \<Rightarrow>
               (case (table_sectors cfg f, map_sectors cfg (freeMapFile fs),
                      free_space_map cfg fs) of
                  (Some P, Some M, Some bm) \<Rightarrow>
                    P \<noteq> [] \<and> M \<noteq> [] \<and>
                    Directory_FetchFrom cfg (Directory_new NumDirEntries) f (disk fs) \<noteq> None \<and>
                    Test bm cur \<and> list_all (Test bm) P \<and> list_all (Test bm) M
                | _ \<Rightarrow> False)))"

text \<open>The device has room for the two bootstrap files: the sector size and the
  sizes of the two files are positive; with the two header sectors the files
  fit; neither exceeds the maximum file size; the map file is long enough for
  the map.\<close>

definition room_to_format :: "Config \<Rightarrow> bool" where
  "room_to_format cfg =
     (let k1 = divRoundUp (FreeMapFileSize cfg) (SectorSize cfg);
          k2 = divRoundUp (DirectoryFileSize cfg) (SectorSize cfg)
      in 0 < SectorSize cfg \<and> 0 < FreeMapFileSize cfg \<and> 0 < DirectoryFileSize cfg \<and>
         2 + k1 + k2 \<le> NumSectors cfg \<and>
         FreeMapFileSize cfg \<le> MaxFileSize cfg \<and> DirectoryFileSize cfg \<le> MaxFileSize cfg \<and>
         map_bytes cfg (BitMap_new (NumSectors cfg)) \<le> FreeMapFileSize cfg)"

section \<open>A small device\<close>

text \<open>Thirty-two sectors of 128 bytes, directory entries of 24 bytes, four
  handles; the free-space map takes one data sector and a directory two.\<close>

definition example_config :: Config where
  "example_config = \<lparr>NumSectors = 32, SectorSize = 128, BitsInByte = 8,
     DirectoryEntrySize = 24, MaxFileSize = 3840, MAX_OPEN_FILES = 4,
     INVALID_FILE_HANDLE = - 1\<rparr>"

definition blank_disk :: Disk where
  "blank_disk = \<lparr>sectors = (\<lambda>s. Blank), writes = []\<rparr>"

text \<open>Transfer routines for the examples. They count bytes the way section 3
  bounds a file by its length: nothing at or after the end of the file, and no
  more than what is left of it.\<close>

definition example_count :: "OpenFile \<Rightarrow> int \<Rightarrow> int \<Rightarrow> int" where
  "example_count f n pos =
     (if n \<le> 0 \<or> fh_numBytes (of_hdr f) \<le> pos then 0
      else min n (fh_numBytes (of_hdr f) - pos))"

definition example_io :: "nat FileIO" where
  "example_io =
     \<lparr>io_Read = (\<lambda>f buf n d.
        (example_count f n (of_seekPosition f),
         f\<lparr>of_seekPosition := of_seekPosition f + example_count f n (of_seekPosition f)\<rparr>, d)),
      io_Write = (\<lambda>f buf n d.
        (example_count f n (of_seekPosition f),
         f\<lparr>of_seekPosition := of_seekPosition f + example_count f n (of_seekPosition f)\<rparr>, d)),
      io_ReadAt = (\<lambda>f buf n pos d. (example_count f n pos, f, d)),
      io_WriteAt = (\<lambda>f buf n pos d. (example_count f n pos, f, d))\<rparr>"

text \<open>The file system after formatting the blank device; after
  \<^verbatim>\<open>Create("a", 100)\<close>; after \<^verbatim>\<open>Open("a")\<close> on that.\<close>

definition formatted :: FileSystem where
  "formatted =
     the (FileSystem_new example_config True blank_disk (Some \<lparr>currentDirectory = 0\<rparr>))"

definition with_file :: FileSystem where
  "with_file = snd (the (Create example_config (Some ''a'') 100 formatted))"

definition with_open_file :: FileSystem where
  "with_open_file = snd (the (Open example_config (Some ''a'') with_file))"

text \<open>From the formatted one, after \<^verbatim>\<open>Remove(".")\<close>; from there, after
  \<^verbatim>\<open>Create("a", 0)\<close>, and after \<^verbatim>\<open>CreateDirectory("d")\<close>.\<close>

definition without_dot :: FileSystem where
  "without_dot = snd (the (Remove example_config (Some ''.'') formatted))"

definition with_empty_file :: FileSystem where
  "with_empty_file = snd (the (Create example_config (Some ''a'') 0 without_dot))"

definition with_directory_over_parent :: FileSystem where
  "with_directory_over_parent =
     snd (the (CreateDirectory example_config (Some ''d'') without_dot))"

text \<open>From the one with the open file, after \<^verbatim>\<open>Remove("a")\<close>, which leaves the
  slot of the handle as it is, and then after \<^verbatim>\<open>CreateDirectory("")\<close>.\<close>

definition with_stale_slot :: FileSystem where
  "with_stale_slot = snd (the (Remove example_config (Some ''a'') with_open_file))"

definition with_unnamed_directory :: FileSystem where
  "with_unnamed_directory = snd (the (CreateDirectory example_config (Some []) with_stale_slot))"

text \<open>Positional reads through handle 0, and the file system with the open
  file after 21474836 such reads of 100 bytes followed by one of 47 bytes.\<close>

definition example_read :: "int \<Rightarrow> FileSystem \<Rightarrow> FileSystem" where
  "example_read n fs = snd (ReadAt example_io example_config 0 (Some 7) n 0 fs)"

definition with_cursor_at_max :: FileSystem where
  "with_cursor_at_max = example_read 47 ((example_read 100 ^^ 21474836) with_open_file)"

text \<open>Handle 0 is open on a file of 100 bytes, with the cursor at \<open>c\<close>.\<close>

definition open_at :: "int \<Rightarrow> FileSystem \<Rightarrow> bool" where
  "open_at c fs =
     (IsValidHandle example_config fs 0 \<and>
      map_option (\<lambda>f. fh_numBytes (of_hdr f)) (openFile (openFilesTable fs 0)) = Some 100 \<and>
      currentPosition (openFilesTable fs 0) = c)"

section \<open>The device and the files on it\<close>

lemma WriteSector_Some:
  "WriteSector cfg s b d = Some d' \<longleftrightarrow>
     in_range cfg s \<and>
     d' = d\<lparr>sectors := (sectors d)(s := b), writes := writes d @ [(s, b)]\<rparr>"
  by (auto simp: WriteSector_def in_range_def)

lemma write_blocks_Some:
  "write_blocks cfg ss b d = Some d' \<longleftrightarrow>
     (\<forall>s\<in>set ss. in_range cfg s) \<and>
     d' = d\<lparr>sectors := (\<lambda>x. if x \<in> set ss then b else sectors d x),
            writes := writes d @ map (\<lambda>s. (s, b)) ss\<rparr>"
proof (induction ss arbitrary: d)
  case Nil
  show ?case by auto
next
  case (Cons s ss)
  show ?case
  proof (cases "in_range cfg s")
    case False
    then show ?thesis by (auto simp: WriteSector_def in_range_def)
  next
    case True
    then have w: "WriteSector cfg s b d =
        Some (d\<lparr>sectors := (sectors d)(s := b), writes := writes d @ [(s, b)]\<rparr>)"
      by (simp add: WriteSector_def in_range_def)
    have eq: "(\<lambda>x. if x \<in> set ss then b else if x = s then b else sectors d x) =
              (\<lambda>x. if x \<in> set (s # ss) then b else sectors d x)"
      by (rule ext) auto
    show ?thesis
      using True by (simp add: w Cons.IH eq del: set_simps cong: if_cong) simp
  qed
qed

lemma read_blocks_eq:
  "read_blocks cfg d ss =
     (if \<forall>s\<in>set ss. in_range cfg s then Some (map (sectors d) ss) else None)"
  by (induction ss) (auto simp: ReadSector_def in_range_def)

lemma read_blocks_Some:
  "read_blocks cfg d ss = Some bs \<longleftrightarrow>
     (\<forall>s\<in>set ss. in_range cfg s) \<and> bs = map (sectors d) ss"
  by (auto simp: read_blocks_eq)

lemma divRoundUp_pos:
  assumes "0 < n" and "0 < s"
  shows "1 \<le> divRoundUp n s"
proof -
  from assms have "0 < (n + (s - 1)) div s" by (simp add: pos_imp_zdiv_pos_iff)
  then show ?thesis by (simp add: divRoundUp_def)
qed

lemma divRoundUp_mono: "a \<le> b \<Longrightarrow> 0 < s \<Longrightarrow> divRoundUp a s \<le> divRoundUp b s"
  by (simp add: divRoundUp_def zdiv_mono1)

lemma transfer_sectors_nothing:
  "numBytes \<le> 0 \<or> fh_numBytes (of_hdr f) \<le> 0 \<Longrightarrow> transfer_sectors cfg f numBytes = Some []"
  by (auto simp: transfer_sectors_def Let_def)

lemma transfer_sectors_whole:
  assumes "transfer_sectors cfg f numBytes = Some ss" and "ss \<noteq> []"
  shows "0 < numBytes \<and> numBytes \<le> fh_numBytes (of_hdr f) \<and> 0 < SectorSize cfg \<and>
         nat (divRoundUp numBytes (SectorSize cfg)) \<le> length (fh_dataSectors (of_hdr f)) \<and>
         ss = take (nat (divRoundUp numBytes (SectorSize cfg))) (fh_dataSectors (of_hdr f))"
  using assms by (auto simp: transfer_sectors_def Let_def split: if_splits)

lemma transfer_sectors_moves:
  assumes "transfer_sectors cfg f numBytes = Some ss"
    and "0 < numBytes" and "0 < fh_numBytes (of_hdr f)"
  shows "ss \<noteq> [] \<and> set ss \<subseteq> set (fh_dataSectors (of_hdr f))"
proof -
  from assms have s: "0 < SectorSize cfg"
    and n: "nat (divRoundUp numBytes (SectorSize cfg)) \<le> length (fh_dataSectors (of_hdr f))"
    and ss: "ss = take (nat (divRoundUp numBytes (SectorSize cfg))) (fh_dataSectors (of_hdr f))"
    by (auto simp: transfer_sectors_def Let_def split: if_splits)
  from divRoundUp_pos [OF assms(2) s] have "0 < nat (divRoundUp numBytes (SectorSize cfg))"
    by simp
  with n have "ss \<noteq> []" unfolding ss by auto
  moreover have "set ss \<subseteq> set (fh_dataSectors (of_hdr f))"
    unfolding ss by (rule set_take_subset)
  ultimately show ?thesis by simp
qed

lemma transfer_sectors_exact:
  assumes "0 < numBytes" and "0 < SectorSize cfg" and "fh_numBytes (of_hdr f) = numBytes"
    and "length (fh_dataSectors (of_hdr f)) = nat (divRoundUp numBytes (SectorSize cfg))"
  shows "transfer_sectors cfg f numBytes = Some (fh_dataSectors (of_hdr f))"
    and "fh_dataSectors (of_hdr f) \<noteq> []"
proof -
  show "transfer_sectors cfg f numBytes = Some (fh_dataSectors (of_hdr f))"
    using assms by (simp add: transfer_sectors_def Let_def)
  from divRoundUp_pos [OF assms(1,2)] assms(4) show "fh_dataSectors (of_hdr f) \<noteq> []"
    by auto
qed

lemma file_store_Some:
  "file_store cfg f numBytes b d = Some d' \<longleftrightarrow>
     (\<exists>ss. transfer_sectors cfg f numBytes = Some ss \<and> (\<forall>s\<in>set ss. in_range cfg s) \<and>
        d' = d\<lparr>sectors := (\<lambda>x. if x \<in> set ss then b else sectors d x),
               writes := writes d @ map (\<lambda>s. (s, b)) ss\<rparr>)"
  by (cases "transfer_sectors cfg f numBytes") (simp_all add: file_store_def write_blocks_Some)

lemma file_load_Some:
  "file_load cfg f numBytes d = Some bs \<longleftrightarrow>
     (\<exists>ss. transfer_sectors cfg f numBytes = Some ss \<and> (\<forall>s\<in>set ss. in_range cfg s) \<and>
        bs = map (sectors d) ss)"
  by (cases "transfer_sectors cfg f numBytes") (simp_all add: file_load_def read_blocks_Some)

lemma FileHeader_FetchFrom_Some:
  "FileHeader_FetchFrom cfg d s = Some h \<longleftrightarrow> in_range cfg s \<and> sectors d s = HeaderBlock h"
  by (auto simp: FileHeader_FetchFrom_def ReadSector_def in_range_def split: block.splits)

lemma OpenFile_new_Some:
  "OpenFile_new cfg d s = Some f \<longleftrightarrow>
     in_range cfg s \<and> sectors d s = HeaderBlock (of_hdr f) \<and> of_seekPosition f = 0"
  by (cases f)
     (auto simp: OpenFile_new_def FileHeader_FetchFrom_def ReadSector_def in_range_def
           split: option.splits block.splits)

section \<open>The bitmap and the allocation of sectors\<close>

lemma Mark_Some:
  "Mark bm s = Some bm' \<Longrightarrow>
     length bm' = length bm \<and> (\<forall>x. Test bm' x \<longleftrightarrow> Test bm x \<or> x = s)"
  by (auto simp: Mark_def Test_def nth_list_update split: if_splits)

lemma first_clear_Some:
  "first_clear bm = Some i \<Longrightarrow> i < length bm \<and> \<not> bm ! i"
  by (induction bm arbitrary: i) (auto split: if_splits option.splits)

lemma first_clear_None: "first_clear bm = None \<longleftrightarrow> (\<forall>b\<in>set bm. b)"
  by (induction bm) (auto split: option.splits)

lemma NumClear_mark:
  "i < length bm \<Longrightarrow> \<not> bm ! i \<Longrightarrow> Suc (NumClear (bm[i := True])) = NumClear bm"
proof (induction bm arbitrary: i)
  case Nil
  then show ?case by simp
next
  case (Cons b bm)
  then show ?case by (cases i) (auto simp: NumClear_def)
qed

lemma NumClear_pos: "0 < NumClear bm \<Longrightarrow> first_clear bm \<noteq> None"
  by (auto simp: first_clear_None NumClear_def filter_empty_conv)

lemma BitMap_Find_found:
  assumes "BitMap_Find bm = (s, bm')" and "s \<noteq> - 1"
  shows "0 \<le> s \<and> s < int (length bm) \<and> \<not> Test bm s \<and> bm' = bm[nat s := True]"
  using assms first_clear_Some [of bm]
  by (auto simp: BitMap_Find_def Test_def split: option.splits)

lemma Test_list_update:
  "Test (bm[i := v]) x \<longleftrightarrow> (if x = int i \<and> i < length bm then v else Test bm x)"
  by (auto simp: Test_def nth_list_update)

lemma list_update_False_commute:
  "bm[i := False, j := False] = bm[j := False, i := False]"
  by (cases "i = j") (auto simp: list_update_swap)

lemma clear_sectors_update:
  "clear_sectors ss bm = Some bm' \<Longrightarrow> clear_sectors ss (bm[i := False]) = Some (bm'[i := False])"
proof (induction ss arbitrary: bm)
  case Nil
  then show ?case by simp
next
  case (Cons s ss)
  from Cons.prems have r: "0 \<le> s" "s < int (length bm)"
    and c: "clear_sectors ss (bm[nat s := False]) = Some bm'"
    by (auto simp: Clear_def split: if_splits)
  have "Clear (bm[i := False]) s = Some (bm[nat s := False, i := False])"
    using r by (simp add: Clear_def list_update_False_commute)
  then show ?case using Cons.IH [OF c] by simp
qed

lemma find_sectors_props:
  assumes "find_sectors n bm = (ss, bm')" and "n \<le> NumClear bm"
  shows "length bm' = length bm \<and> length ss = n \<and> distinct ss \<and>
         (\<forall>s\<in>set ss. 0 \<le> s \<and> s < int (length bm) \<and> \<not> Test bm s) \<and>
         (\<forall>x. Test bm' x \<longleftrightarrow> Test bm x \<or> x \<in> set ss) \<and>
         clear_sectors ss bm' = Some bm"
  using assms
proof (induction n arbitrary: bm ss bm')
  case 0
  then show ?case by simp
next
  case (Suc n)
  obtain s bm1 where f: "BitMap_Find bm = (s, bm1)" by (cases "BitMap_Find bm")
  obtain ss1 bm2 where r: "find_sectors n bm1 = (ss1, bm2)" by (cases "find_sectors n bm1")
  from Suc.prems f r have ss: "ss = s # ss1" and bm': "bm' = bm2" by auto
  from Suc.prems(2) have "first_clear bm \<noteq> None" by (intro NumClear_pos) simp
  with f have s1: "s \<noteq> - 1" by (auto simp: BitMap_Find_def)
  from BitMap_Find_found [OF f s1]
  have s: "0 \<le> s" "s < int (length bm)" "\<not> Test bm s" "bm1 = bm[nat s := True]" by auto
  from s have nb: "nat s < length bm" "\<not> bm ! nat s" by (auto simp: Test_def)
  from NumClear_mark [OF nb] Suc.prems(2) s(4) have "n \<le> NumClear bm1" by simp
  from Suc.IH [OF r this]
  have ih: "length bm2 = length bm1" "length ss1 = n" "distinct ss1"
    "\<forall>s\<in>set ss1. 0 \<le> s \<and> s < int (length bm1) \<and> \<not> Test bm1 s"
    "\<forall>x. Test bm2 x \<longleftrightarrow> Test bm1 x \<or> x \<in> set ss1"
    "clear_sectors ss1 bm2 = Some bm1" by auto
  have t1: "Test bm1 x \<longleftrightarrow> (x = s \<or> Test bm x)" for x
    using s nb by (auto simp: Test_list_update)
  have notin: "s \<notin> set ss1" using ih(4) t1 by auto
  have len: "length bm2 = length bm" using ih(1) s(4) by simp
  have c1: "Clear bm2 s = Some (bm2[nat s := False])"
    using s len by (simp add: Clear_def)
  have "clear_sectors ss1 (bm2[nat s := False]) = Some (bm1[nat s := False])"
    using clear_sectors_update [OF ih(6)] .
  moreover have "bm1[nat s := False] = bm"
    using s(4) nb by (simp add: list_update_same_conv)
  ultimately have c: "clear_sectors (s # ss1) bm2 = Some bm" using c1 by simp
  show ?case
    using ss bm' len ih(2,3,4,5) notin s t1 c by auto
qed

lemma Allocate_Some:
  assumes "Allocate cfg bm n = Some (h, bm')"
  shows "length bm' = length bm \<and> distinct (fh_dataSectors h) \<and>
         (\<forall>s\<in>set (fh_dataSectors h). 0 \<le> s \<and> s < int (length bm) \<and> \<not> Test bm s) \<and>
         (\<forall>x. Test bm' x \<longleftrightarrow> Test bm x \<or> x \<in> set (fh_dataSectors h)) \<and>
         Deallocate h bm' = Some bm"
proof -
  let ?k = "divRoundUp n (SectorSize cfg)"
  obtain ss bm2 where r: "find_sectors (nat ?k) bm = (ss, bm2)"
    by (cases "find_sectors (nat ?k) bm")
  from assms r have le: "nat ?k \<le> NumClear bm" and h: "fh_dataSectors h = ss" and b: "bm' = bm2"
    by (auto simp: Allocate_def Let_def split: if_splits)
  from find_sectors_props [OF r le] show ?thesis
    unfolding Deallocate_def h b by simp
qed

lemma NumClear_replicate: "NumClear (replicate n False) = n"
  by (simp add: NumClear_def)

lemma find_sectors_NumClear:
  assumes "find_sectors n bm = (ss, bm')" and "n \<le> NumClear bm"
  shows "NumClear bm' + n = NumClear bm"
  using assms
proof (induction n arbitrary: bm ss bm')
  case 0
  then show ?case by simp
next
  case (Suc n)
  obtain s bm1 where f: "BitMap_Find bm = (s, bm1)" by (cases "BitMap_Find bm")
  obtain ss1 bm2 where r: "find_sectors n bm1 = (ss1, bm2)" by (cases "find_sectors n bm1")
  from Suc.prems f r have bm': "bm' = bm2" by auto
  from Suc.prems(2) have "first_clear bm \<noteq> None" by (intro NumClear_pos) simp
  with f have s1: "s \<noteq> - 1" by (auto simp: BitMap_Find_def)
  from BitMap_Find_found [OF f s1]
  have s: "0 \<le> s" "s < int (length bm)" "\<not> Test bm s" "bm1 = bm[nat s := True]" by auto
  from s have nb: "nat s < length bm" "\<not> bm ! nat s" by (auto simp: Test_def)
  from NumClear_mark [OF nb] s(4) have m: "Suc (NumClear bm1) = NumClear bm" by simp
  with Suc.prems(2) have "n \<le> NumClear bm1" by simp
  from Suc.IH [OF r this] m bm' show ?case by simp
qed

lemma Allocate_succeeds:
  assumes "fileSize \<le> MaxFileSize cfg"
    and "divRoundUp fileSize (SectorSize cfg) \<le> int (NumClear bm)"
  obtains h bm' where "Allocate cfg bm fileSize = Some (h, bm')"
    and "length (fh_dataSectors h) = nat (divRoundUp fileSize (SectorSize cfg))"
    and "NumClear bm' + nat (divRoundUp fileSize (SectorSize cfg)) = NumClear bm"
proof -
  let ?k = "nat (divRoundUp fileSize (SectorSize cfg))"
  obtain ss bm2 where r: "find_sectors ?k bm = (ss, bm2)" by (cases "find_sectors ?k bm")
  have le: "?k \<le> NumClear bm" using assms(2) by simp
  have "Allocate cfg bm fileSize = Some (\<lparr>fh_numBytes = fileSize, fh_dataSectors = ss\<rparr>, bm2)"
    using assms r by (simp add: Allocate_def Let_def)
  moreover have "length ss = ?k" using find_sectors_props [OF r le] by simp
  moreover have "NumClear bm2 + ?k = NumClear bm" using find_sectors_NumClear [OF r le] .
  ultimately show ?thesis using that by simp
qed

section \<open>The directory table\<close>

lemma fill_free_find:
  assumes "fill_free e dir = Some dir'" and "find P dir = None" and "P e"
  shows "find P dir' = Some e"
  using assms
  by (induction dir arbitrary: dir') (auto split: if_splits option.splits)

lemma Directory_Add_Find:
  assumes "Directory_Add dir nm s t = (True, dir')"
  shows "Directory_Find dir' nm = s \<and> GetEntryType dir' nm = Some t"
proof -
  let ?e = "\<lparr>de_inUse = True, de_sector = s, de_name = nm, de_type = t\<rparr>"
  from assms have a: "find (matches nm) dir = None" and f: "fill_free ?e dir = Some dir'"
    by (auto simp: Directory_Add_def split: if_splits option.splits)
  have "find (matches nm) dir' = Some ?e"
    using fill_free_find [OF f a] by (simp add: matches_def)
  then show ?thesis by (simp add: Directory_Find_def GetEntryType_def)
qed

lemma seeded_directory:
  "snd (Directory_Add (snd (Directory_Add (Directory_new NumDirEntries) ''.'' s DIR_TYPE))
         ''..'' p DIR_TYPE) =
     \<lparr>de_inUse = True, de_sector = s, de_name = ''.'', de_type = DIR_TYPE\<rparr> #
     \<lparr>de_inUse = True, de_sector = p, de_name = ''..'', de_type = DIR_TYPE\<rparr> #
     replicate 8 \<lparr>de_inUse = False, de_sector = 0, de_name = [], de_type = FILE_TYPE\<rparr>"
  by (simp add: Directory_new_def NumDirEntries_def Directory_Add_def matches_def
      eval_nat_numeral)

lemma seeded_active:
  "filter de_inUse
     (snd (Directory_Add (snd (Directory_Add (Directory_new NumDirEntries) ''.'' s DIR_TYPE))
         ''..'' p DIR_TYPE)) = dot_entries s p"
  by (simp add: seeded_directory dot_entries_def)

section \<open>Tables in files\<close>

lemma length_Directory_new: "length (Directory_new n) = n"
  by (simp add: Directory_new_def)

lemma length_BitMap_new: "length (BitMap_new n) = nat n"
  by (simp add: BitMap_new_def)

lemma table_bytes_new:
  "length dir = NumDirEntries \<Longrightarrow>
     table_bytes cfg dir = table_bytes cfg (Directory_new NumDirEntries)"
  by (simp add: table_bytes_def length_Directory_new)

lemma table_bytes_DirectoryFileSize:
  "table_bytes cfg (Directory_new NumDirEntries) = DirectoryFileSize cfg"
  by (simp add: table_bytes_def DirectoryFileSize_def length_Directory_new)

lemma map_bytes_new:
  "length bm = nat (NumSectors cfg) \<Longrightarrow>
     map_bytes cfg bm = map_bytes cfg (BitMap_new (NumSectors cfg))"
  by (simp add: map_bytes_def length_BitMap_new)

lemma Directory_FetchFrom_nothing:
  assumes "table_sectors cfg f = Some []"
  shows "Directory_FetchFrom cfg (Directory_new NumDirEntries) f d =
           Some (Directory_new NumDirEntries)"
  using assms by (simp add: Directory_FetchFrom_def table_sectors_def file_load_def)

lemma Directory_FetchFrom_table:
  assumes "table_sectors cfg f = Some P" and "P \<noteq> []"
  shows "Directory_FetchFrom cfg (Directory_new NumDirEntries) f d = Some dir \<longleftrightarrow>
           length dir = NumDirEntries \<and>
           (\<forall>s\<in>set P. in_range cfg s \<and> sectors d s = DirectoryBlock dir)"
proof (cases P)
  case Nil
  with assms show ?thesis by simp
next
  case (Cons p ps)
  show ?thesis
  proof (cases "\<forall>s\<in>set P. in_range cfg s")
    case False
    then have "read_blocks cfg d P = None" by (simp add: read_blocks_eq)
    with assms False show ?thesis
      by (auto simp: Directory_FetchFrom_def table_sectors_def file_load_def)
  next
    case True
    then have "read_blocks cfg d P = Some (sectors d p # map (sectors d) ps)"
      by (simp add: read_blocks_eq Cons)
    with assms True show ?thesis
      unfolding Directory_FetchFrom_def table_sectors_def file_load_def
      by (cases "sectors d p")
         (auto simp: Cons list_all_iff length_Directory_new)
  qed
qed

lemma Directory_WriteBack_table:
  assumes "table_sectors cfg f = Some P" and "length dir = NumDirEntries"
  shows "Directory_WriteBack cfg dir f d = Some d' \<longleftrightarrow>
           (\<forall>s\<in>set P. in_range cfg s) \<and>
           d' = d\<lparr>sectors := (\<lambda>x. if x \<in> set P then DirectoryBlock dir else sectors d x),
                  writes := writes d @ map (\<lambda>s. (s, DirectoryBlock dir)) P\<rparr>"
  using assms(1) table_bytes_new [OF assms(2), of cfg]
  by (simp add: Directory_WriteBack_def file_store_Some table_sectors_def)

lemma Directory_WriteBack_sectors:
  assumes "Directory_WriteBack cfg dir f d = Some d'" and "length dir = NumDirEntries"
  obtains P where "table_sectors cfg f = Some P"
  using assms table_bytes_new [OF assms(2), of cfg]
  by (auto simp: Directory_WriteBack_def file_store_Some table_sectors_def)

lemma BitMap_FetchFrom_map:
  assumes "map_sectors cfg f = Some M" and "M \<noteq> []"
  shows "BitMap_FetchFrom cfg (BitMap_new (NumSectors cfg)) f d = Some bm \<longleftrightarrow>
           length bm = nat (NumSectors cfg) \<and>
           (\<forall>s\<in>set M. in_range cfg s \<and> sectors d s = BitMapBlock bm)"
proof (cases M)
  case Nil
  with assms show ?thesis by simp
next
  case (Cons p ps)
  show ?thesis
  proof (cases "\<forall>s\<in>set M. in_range cfg s")
    case False
    then have "read_blocks cfg d M = None" by (simp add: read_blocks_eq)
    with assms False show ?thesis
      by (auto simp: BitMap_FetchFrom_def map_sectors_def file_load_def)
  next
    case True
    then have "read_blocks cfg d M = Some (sectors d p # map (sectors d) ps)"
      by (simp add: read_blocks_eq Cons)
    with assms True show ?thesis
      unfolding BitMap_FetchFrom_def map_sectors_def file_load_def
      by (cases "sectors d p")
         (auto simp: Cons list_all_iff length_BitMap_new)
  qed
qed

lemma BitMap_WriteBack_map:
  assumes "map_sectors cfg f = Some M" and "length bm = nat (NumSectors cfg)"
  shows "BitMap_WriteBack cfg bm f d = Some d' \<longleftrightarrow>
           (\<forall>s\<in>set M. in_range cfg s) \<and>
           d' = d\<lparr>sectors := (\<lambda>x. if x \<in> set M then BitMapBlock bm else sectors d x),
                  writes := writes d @ map (\<lambda>s. (s, BitMapBlock bm)) M\<rparr>"
  using assms(1) map_bytes_new [OF assms(2)]
  by (simp add: BitMap_WriteBack_def file_store_Some map_sectors_def)

lemma BitMap_WriteBack_sectors:
  assumes "BitMap_WriteBack cfg bm f d = Some d'" and "length bm = nat (NumSectors cfg)"
  obtains M where "map_sectors cfg f = Some M"
  using assms map_bytes_new [OF assms(2)]
  by (auto simp: BitMap_WriteBack_def file_store_Some map_sectors_def)

lemma Directory_FetchFrom_length:
  assumes "Directory_FetchFrom cfg dir0 f d = Some dir"
  shows "length dir = length dir0"
  using assms unfolding Directory_FetchFrom_def
  by (auto split: option.splits list.splits block.splits if_splits)

lemma BitMap_FetchFrom_length:
  assumes "BitMap_FetchFrom cfg bm0 f d = Some bm"
  shows "length bm = length bm0"
  using assms unfolding BitMap_FetchFrom_def
  by (auto split: option.splits list.splits block.splits if_splits)

lemma fill_free_length: "fill_free e dir = Some dir' \<Longrightarrow> length dir' = length dir"
  by (induction dir arbitrary: dir') (auto split: if_splits option.splits)

lemma Directory_Add_length: "length (snd (Directory_Add dir nm s t)) = length dir"
  by (auto simp: Directory_Add_def fill_free_length split: option.splits)

lemma Directory_Remove_length: "length (Directory_Remove dir nm) = length dir"
  by (induction dir) auto

section \<open>The steps of a successful run\<close>

lemma Allocate_header:
  assumes "Allocate cfg bm n = Some (h, bm')"
  shows "fh_numBytes h = n \<and>
         length (fh_dataSectors h) = nat (divRoundUp n (SectorSize cfg))"
proof -
  let ?k = "divRoundUp n (SectorSize cfg)"
  obtain ss bm2 where r: "find_sectors (nat ?k) bm = (ss, bm2)"
    by (cases "find_sectors (nat ?k) bm")
  from assms r have le: "nat ?k \<le> NumClear bm" and h: "h = \<lparr>fh_numBytes = n, fh_dataSectors = ss\<rparr>"
    by (auto simp: Allocate_def Let_def split: if_splits)
  from find_sectors_props [OF r le] show ?thesis
    unfolding h by simp
qed

lemma transfer_sectors_fits:
  assumes "numBytes \<le> fh_numBytes (of_hdr f)" and "0 < SectorSize cfg"
    and "length (fh_dataSectors (of_hdr f)) =
           nat (divRoundUp (fh_numBytes (of_hdr f)) (SectorSize cfg))"
  shows "\<exists>ss. transfer_sectors cfg f numBytes = Some ss \<and>
              set ss \<subseteq> set (fh_dataSectors (of_hdr f))"
proof -
  from divRoundUp_mono [OF assms(1,2)] assms(3)
  have "nat (divRoundUp numBytes (SectorSize cfg)) \<le> length (fh_dataSectors (of_hdr f))"
    by simp
  with assms(1,2) show ?thesis
    by (auto simp: transfer_sectors_def Let_def dest: in_set_takeD)
qed

lemma map_bytes_pos:
  assumes "0 < FreeMapFileSize cfg" and "0 < NumSectors cfg"
  shows "0 < map_bytes cfg (BitMap_new (NumSectors cfg))"
proof -
  have "0 < BitsInByte cfg"
  proof (rule ccontr)
    assume "\<not> 0 < BitsInByte cfg"
    then consider "BitsInByte cfg = 0" | "BitsInByte cfg < 0" by linarith
    then have "NumSectors cfg div BitsInByte cfg \<le> 0"
    proof cases
      case 1
      then show ?thesis by simp
    next
      case 2
      with assms(2) show ?thesis by (simp add: div_nonneg_neg_le0)
    qed
    with assms(1) show False by (simp add: FreeMapFileSize_def)
  qed
  from divRoundUp_pos [OF assms(2) this] assms(2) show ?thesis
    by (simp add: map_bytes_def length_BitMap_new)
qed

lemma format_steps:
  assumes "FileSystem_new cfg True d0 thr = Some fs"
  obtains bm1 bm2 mapHdr bm3 dirHdr bm4 d1 d2 d3 d4 d5 where
    "Mark (BitMap_new (NumSectors cfg)) FreeMapSector = Some bm1"
    "Mark bm1 DirectorySector = Some bm2"
    "Allocate cfg bm2 (FreeMapFileSize cfg) = Some (mapHdr, bm3)"
    "Allocate cfg bm3 (DirectoryFileSize cfg) = Some (dirHdr, bm4)"
    "FileHeader_WriteBack cfg mapHdr FreeMapSector d0 = Some d1"
    "FileHeader_WriteBack cfg dirHdr DirectorySector d1 = Some d2"
    "OpenFile_new cfg d2 FreeMapSector = Some (freeMapFile fs)"
    "OpenFile_new cfg d2 DirectorySector = Some (directoryFile fs)"
    "Directory_WriteBack cfg (Directory_new NumDirEntries) (directoryFile fs) d2 = Some d3"
    "BitMap_WriteBack cfg bm4 (freeMapFile fs) d3 = Some d4"
    "Directory_WriteBack cfg
       (snd (Directory_Add (snd (Directory_Add (Directory_new NumDirEntries) ''.''
          DirectorySector DIR_TYPE)) ''..'' DirectorySector DIR_TYPE))
       (directoryFile fs) d4 = Some d5"
    "disk fs = d5"
  using assms unfolding FileSystem_new_def
  by (auto simp: bind_eq_Some_conv Let_def)

lemma format_context:
  assumes "FileSystem_new cfg format d0 thr = Some fs"
  shows "GetCurrentDirectory fs = Some DirectorySector"
  using assms unfolding FileSystem_new_def
  by (auto simp: bind_eq_Some_conv Let_def GetCurrentDirectory_def split: if_splits)

text \<open>Formatting runs to completion on every device with room for the two
  bootstrap files, whatever it held before.\<close>

lemma format_completes:
  assumes room: "room_to_format cfg"
  shows "\<exists>fs. FileSystem_new cfg True d0 (Some t) = Some fs"
proof -
  let ?n = "nat (NumSectors cfg)"
  let ?k1 = "divRoundUp (FreeMapFileSize cfg) (SectorSize cfg)"
  let ?k2 = "divRoundUp (DirectoryFileSize cfg) (SectorSize cfg)"
  let ?seed = "snd (Directory_Add (snd (Directory_Add (Directory_new NumDirEntries) ''.''
          DirectorySector DIR_TYPE)) ''..'' DirectorySector DIR_TYPE)"
  from room have pos: "0 < SectorSize cfg" "0 < FreeMapFileSize cfg" "0 < DirectoryFileSize cfg"
    and fit: "2 + ?k1 + ?k2 \<le> NumSectors cfg"
    and sz: "FreeMapFileSize cfg \<le> MaxFileSize cfg" "DirectoryFileSize cfg \<le> MaxFileSize cfg"
    and mb: "map_bytes cfg (BitMap_new (NumSectors cfg)) \<le> FreeMapFileSize cfg"
    by (auto simp: room_to_format_def Let_def)
  have k: "1 \<le> ?k1" "1 \<le> ?k2"
    using divRoundUp_pos [OF pos(2) pos(1)] divRoundUp_pos [OF pos(3) pos(1)] by auto
  define bm0 where "bm0 = BitMap_new (NumSectors cfg)"
  define bm1 where "bm1 = bm0[0 := True]"
  define bm2 where "bm2 = bm1[1 := True]"
  have l0: "length bm0 = ?n" by (simp add: bm0_def BitMap_new_def)
  have n4: "4 \<le> ?n" and i4: "4 \<le> NumSectors cfg" using k fit by simp_all
  have m1: "Mark bm0 FreeMapSector = Some bm1"
    using i4 by (simp add: Mark_def FreeMapSector_def l0 bm1_def)
  have m2: "Mark bm1 DirectorySector = Some bm2"
    using i4 by (simp add: Mark_def DirectorySector_def l0 bm1_def bm2_def)
  have c0: "NumClear bm0 = ?n" by (simp add: bm0_def BitMap_new_def NumClear_replicate)
  have "Suc (NumClear bm1) = NumClear bm0"
    unfolding bm1_def using n4 by (intro NumClear_mark) (simp_all add: l0, simp add: bm0_def BitMap_new_def)
  moreover have "Suc (NumClear bm2) = NumClear bm1"
    unfolding bm2_def using n4
    by (intro NumClear_mark) (simp_all add: l0 bm1_def, simp add: bm0_def BitMap_new_def)
  ultimately have c2: "NumClear bm2 + 2 = ?n" using c0 by simp
  have "?k1 \<le> int (NumClear bm2)" using c2 k fit by linarith
  from Allocate_succeeds [OF sz(1) this] obtain mapHdr bm3 where
    a1: "Allocate cfg bm2 (FreeMapFileSize cfg) = Some (mapHdr, bm3)" and
    c3: "NumClear bm3 + nat ?k1 = NumClear bm2" by blast
  have "?k2 \<le> int (NumClear bm3)" using c3 c2 k fit by linarith
  from Allocate_succeeds [OF sz(2) this] obtain dirHdr bm4 where
    a2: "Allocate cfg bm3 (DirectoryFileSize cfg) = Some (dirHdr, bm4)" by blast
  have hm: "fh_numBytes mapHdr = FreeMapFileSize cfg"
    "length (fh_dataSectors mapHdr) = nat ?k1"
    using Allocate_header [OF a1] by auto
  have hd: "fh_numBytes dirHdr = DirectoryFileSize cfg"
    "length (fh_dataSectors dirHdr) = nat ?k2"
    using Allocate_header [OF a2] by auto
  have l2: "length bm2 = ?n" by (simp add: bm2_def bm1_def l0)
  have l3: "length bm3 = ?n" using Allocate_Some [OF a1] l2 by simp
  have l4: "length bm4 = ?n" using Allocate_Some [OF a2] l3 by simp
  have rM: "\<forall>s\<in>set (fh_dataSectors mapHdr). in_range cfg s"
    using Allocate_Some [OF a1] l2 i4 by (auto simp: in_range_def)
  have rD: "\<forall>s\<in>set (fh_dataSectors dirHdr). in_range cfg s"
    using Allocate_Some [OF a2] l3 i4 by (auto simp: in_range_def)
  have r01: "in_range cfg FreeMapSector" "in_range cfg DirectorySector"
    using i4 by (auto simp: in_range_def FreeMapSector_def DirectorySector_def)
  define d1 where "d1 = d0\<lparr>sectors := (sectors d0)(FreeMapSector := HeaderBlock mapHdr),
                           writes := writes d0 @ [(FreeMapSector, HeaderBlock mapHdr)]\<rparr>"
  define d2 where "d2 = d1\<lparr>sectors := (sectors d1)(DirectorySector := HeaderBlock dirHdr),
                           writes := writes d1 @ [(DirectorySector, HeaderBlock dirHdr)]\<rparr>"
  define fm where "fm = \<lparr>of_hdr = mapHdr, of_seekPosition = 0\<rparr>"
  define fd where "fd = \<lparr>of_hdr = dirHdr, of_seekPosition = 0\<rparr>"
  have w1: "FileHeader_WriteBack cfg mapHdr FreeMapSector d0 = Some d1"
    using r01 by (simp add: FileHeader_WriteBack_def WriteSector_Some d1_def)
  have w2: "FileHeader_WriteBack cfg dirHdr DirectorySector d1 = Some d2"
    using r01 by (simp add: FileHeader_WriteBack_def WriteSector_Some d2_def)
  have o1: "OpenFile_new cfg d2 FreeMapSector = Some fm"
    using r01
    by (simp add: OpenFile_new_Some d2_def d1_def FreeMapSector_def DirectorySector_def fm_def)
  have o2: "OpenFile_new cfg d2 DirectorySector = Some fd"
    using r01 by (simp add: OpenFile_new_Some d2_def fd_def)
  have "\<exists>ss. transfer_sectors cfg fd n = Some ss \<and> set ss \<subseteq> set (fh_dataSectors (of_hdr fd))"
    if "n \<le> DirectoryFileSize cfg" for n
    using that pos(1) hd by (intro transfer_sectors_fits) (simp_all add: fd_def)
  then have st: "\<exists>d'. file_store cfg fd (DirectoryFileSize cfg) b d = Some d'" for b d
    using rD by (fastforce simp: file_store_Some fd_def)
  have "\<exists>ss. transfer_sectors cfg fm n = Some ss \<and> set ss \<subseteq> set (fh_dataSectors (of_hdr fm))"
    if "n \<le> FreeMapFileSize cfg" for n
    using that pos(1) hm by (intro transfer_sectors_fits) (simp_all add: fm_def)
  from this [OF mb] have sm:
    "\<exists>d'. file_store cfg fm (map_bytes cfg (BitMap_new (NumSectors cfg))) b d = Some d'" for b d
    using rM by (fastforce simp: file_store_Some fm_def)
  have tb: "table_bytes cfg dir = DirectoryFileSize cfg" if "length dir = NumDirEntries" for dir
    using that by (simp add: table_bytes_def DirectoryFileSize_def)
  obtain d3 where w3: "Directory_WriteBack cfg (Directory_new NumDirEntries) fd d2 = Some d3"
    using st unfolding Directory_WriteBack_def
    by (auto simp: tb length_Directory_new)
  have "map_bytes cfg bm4 = map_bytes cfg (BitMap_new (NumSectors cfg))"
    using l4 by (rule map_bytes_new)
  then obtain d4 where w4: "BitMap_WriteBack cfg bm4 fm d3 = Some d4"
    using sm unfolding BitMap_WriteBack_def by auto
  have "length ?seed = NumDirEntries"
    by (simp add: Directory_Add_length length_Directory_new)
  then obtain d5 where w5: "Directory_WriteBack cfg ?seed fd d4 = Some d5"
    using st unfolding Directory_WriteBack_def by (auto simp: tb)
  show ?thesis
    using m1 m2 a1 a2 w1 w2 o1 o2 w3 w4 w5
    by (simp add: FileSystem_new_def bm0_def [symmetric])
qed

text \<open>What formatting leaves on the device, when the constants make neither
  bootstrap file empty.\<close>

lemma format_result:
  assumes run: "FileSystem_new cfg True d0 thr = Some fs"
    and fsz: "0 < FreeMapFileSize cfg" and dsz: "0 < DirectoryFileSize cfg"
  obtains bm P M where "free_space_map cfg fs = Some bm"
    "Test bm FreeMapSector" "Test bm DirectorySector"
    "table_sectors cfg (directoryFile fs) = Some P" "P \<noteq> []"
    "map_sectors cfg (freeMapFile fs) = Some M" "M \<noteq> []"
    "\<forall>s\<in>set P. Test bm s" "\<forall>s\<in>set M. Test bm s"
    "OpenFile_new cfg (disk fs) DirectorySector = Some (directoryFile fs)"
    "directory_at cfg (disk fs) DirectorySector =
       Some (snd (Directory_Add (snd (Directory_Add (Directory_new NumDirEntries) ''.''
          DirectorySector DIR_TYPE)) ''..'' DirectorySector DIR_TYPE))"
    "GetCurrentDirectory fs = Some DirectorySector"
proof -
  let ?seed = "snd (Directory_Add (snd (Directory_Add (Directory_new NumDirEntries) ''.''
          DirectorySector DIR_TYPE)) ''..'' DirectorySector DIR_TYPE)"
  from run obtain bm1 bm2 mapHdr bm3 dirHdr bm4 d1 d2 d3 d4 where
    m1: "Mark (BitMap_new (NumSectors cfg)) FreeMapSector = Some bm1" and
    m2: "Mark bm1 DirectorySector = Some bm2" and
    a1: "Allocate cfg bm2 (FreeMapFileSize cfg) = Some (mapHdr, bm3)" and
    a2: "Allocate cfg bm3 (DirectoryFileSize cfg) = Some (dirHdr, bm4)" and
    w1: "FileHeader_WriteBack cfg mapHdr FreeMapSector d0 = Some d1" and
    w2: "FileHeader_WriteBack cfg dirHdr DirectorySector d1 = Some d2" and
    o1: "OpenFile_new cfg d2 FreeMapSector = Some (freeMapFile fs)" and
    o2: "OpenFile_new cfg d2 DirectorySector = Some (directoryFile fs)" and
    w3: "Directory_WriteBack cfg (Directory_new NumDirEntries) (directoryFile fs) d2 = Some d3" and
    w4: "BitMap_WriteBack cfg bm4 (freeMapFile fs) d3 = Some d4" and
    w5: "Directory_WriteBack cfg ?seed (directoryFile fs) d4 = Some (disk fs)"
    by (rule format_steps) auto
  have g: "GetCurrentDirectory fs = Some DirectorySector"
    using run by (rule format_context)
  let ?Mh = "fh_dataSectors mapHdr" and ?D = "fh_dataSectors dirHdr"
  have l1: "length bm1 = nat (NumSectors cfg)"
    using Mark_Some [OF m1] by (simp add: length_BitMap_new)
  have l4: "length bm4 = nat (NumSectors cfg)"
    using Mark_Some [OF m2] Allocate_Some [OF a1] Allocate_Some [OF a2] l1 by simp
  have npos: "0 < NumSectors cfg"
    using m2 l1 by (auto simp: Mark_def DirectorySector_def split: if_splits)
  have t2: "Test bm2 FreeMapSector" "Test bm2 DirectorySector"
    using Mark_Some [OF m1] Mark_Some [OF m2] by auto
  have Mh: "\<forall>s\<in>set ?Mh. \<not> Test bm2 s" and t3: "\<forall>x. Test bm3 x \<longleftrightarrow> Test bm2 x \<or> x \<in> set ?Mh"
    using Allocate_Some [OF a1] by auto
  have D: "\<forall>s\<in>set ?D. \<not> Test bm3 s" and t4: "\<forall>x. Test bm4 x \<longleftrightarrow> Test bm3 x \<or> x \<in> set ?D"
    using Allocate_Some [OF a2] by auto
  have r: "in_range cfg FreeMapSector" "in_range cfg DirectorySector"
    and d2: "sectors d2 = (sectors d0)(FreeMapSector := HeaderBlock mapHdr,
                                       DirectorySector := HeaderBlock dirHdr)"
    using w1 w2 by (auto simp: FileHeader_WriteBack_def WriteSector_Some)
  have ne: "FreeMapSector \<noteq> DirectorySector"
    by (simp add: FreeMapSector_def DirectorySector_def)
  have h1: "of_hdr (freeMapFile fs) = mapHdr" and h2: "of_hdr (directoryFile fs) = dirHdr"
    using o1 o2 ne by (auto simp: OpenFile_new_Some d2)
  have ls: "length ?seed = NumDirEntries"
    by (simp add: Directory_Add_length length_Directory_new)
  from w3 obtain P where P: "table_sectors cfg (directoryFile fs) = Some P"
    by (rule Directory_WriteBack_sectors) (simp add: length_Directory_new)
  from w4 l4 obtain M where M: "map_sectors cfg (freeMapFile fs) = Some M"
    by (rule BitMap_WriteBack_sectors)
  have Pn: "P \<noteq> []" "set P \<subseteq> set ?D"
    using transfer_sectors_moves [of cfg "directoryFile fs" "DirectoryFileSize cfg" P]
      P dsz Allocate_header [OF a2]
    by (auto simp: table_sectors_def table_bytes_DirectoryFileSize h2)
  have Mn: "M \<noteq> []" "set M \<subseteq> set ?Mh"
    using transfer_sectors_moves [of cfg "freeMapFile fs"
        "map_bytes cfg (BitMap_new (NumSectors cfg))" M]
      M map_bytes_pos [OF fsz npos] fsz Allocate_header [OF a1]
    by (auto simp: map_sectors_def h1)
  have sep: "FreeMapSector \<notin> set M" "DirectorySector \<notin> set M"
    "FreeMapSector \<notin> set P" "DirectorySector \<notin> set P" "set M \<inter> set P = {}"
    using t2 Mh t3 D Pn(2) Mn(2) by auto
  have P3: "\<forall>s\<in>set P. in_range cfg s"
    and d3: "sectors d3 = (\<lambda>x. if x \<in> set P then DirectoryBlock (Directory_new NumDirEntries)
                               else sectors d2 x)"
    using w3 by (auto simp: Directory_WriteBack_table [OF P] length_Directory_new)
  have M4: "\<forall>s\<in>set M. in_range cfg s"
    and d4: "sectors d4 = (\<lambda>x. if x \<in> set M then BitMapBlock bm4 else sectors d3 x)"
    using w4 by (auto simp: BitMap_WriteBack_map [OF M l4])
  have d5: "sectors (disk fs) = (\<lambda>x. if x \<in> set P then DirectoryBlock ?seed else sectors d4 x)"
    using w5 unfolding Directory_WriteBack_table [OF P ls]
    by (cases "disk fs") auto
  have fm: "free_space_map cfg fs = Some bm4"
    using M4 sep l4 by (auto simp: free_space_map_def BitMap_FetchFrom_map [OF M Mn(1)] d5 d4)
  have tb: "Test bm4 FreeMapSector" "Test bm4 DirectorySector"
    "\<forall>s\<in>set P. Test bm4 s" "\<forall>s\<in>set M. Test bm4 s"
    using t2 t3 t4 Pn(2) Mn(2) by auto
  have od: "OpenFile_new cfg (disk fs) DirectorySector = Some (directoryFile fs)"
    using o2 sep ne by (auto simp: OpenFile_new_Some d5 d4 d3 d2)
  then have "directory_at cfg (disk fs) DirectorySector = Some ?seed"
    using P3 ls by (auto simp: directory_at_def Directory_FetchFrom_table [OF P Pn(1)] d5)
  from that [OF fm tb(1) tb(2) P Pn(1) M Mn(1) tb(3) tb(4) od this g] show ?thesis .
qed

text \<open>A freshly formatted file system has its metadata in place.\<close>

lemma format_establishes_metadata_intact:
  assumes "FileSystem_new cfg True d0 thr = Some fs"
    and "0 < FreeMapFileSize cfg" and "0 < DirectoryFileSize cfg"
  shows "metadata_intact cfg fs"
  by (rule format_result [OF assms])
     (auto simp: metadata_intact_def list_all_iff directory_at_def)

lemma Create_steps:
  assumes "Create cfg (Some nm) initialSize fs = Some (True, fs1)"
  obtains cur f dir bm sec bm1 dir1 newHdr bm2 d1 d2 d3 where
    "nm \<noteq> []"
    "GetCurrentDirectory fs = Some cur"
    "OpenFile_new cfg (disk fs) cur = Some f"
    "Directory_FetchFrom cfg (Directory_new NumDirEntries) f (disk fs) = Some dir"
    "BitMap_FetchFrom cfg (BitMap_new (NumSectors cfg)) (freeMapFile fs) (disk fs) = Some bm"
    "BitMap_Find bm = (sec, bm1)" "sec \<noteq> - 1"
    "Directory_Add dir nm sec FILE_TYPE = (True, dir1)"
    "Allocate cfg bm1 initialSize = Some (newHdr, bm2)"
    "FileHeader_WriteBack cfg newHdr sec (disk fs) = Some d1"
    "Directory_WriteBack cfg dir1 f d1 = Some d2"
    "BitMap_WriteBack cfg bm2 (freeMapFile fs) d2 = Some d3"
    "fs1 = fs\<lparr>disk := d3\<rparr>"
  using assms unfolding Create_def
  by (cases "BitMap_Find (the (BitMap_FetchFrom cfg (BitMap_new (NumSectors cfg))
                (freeMapFile fs) (disk fs)))")
     (auto simp: bind_eq_Some_conv Let_def case_prod_beta prod_eq_iff
           split: if_splits option.splits)

lemma CreateDirectory_steps:
  assumes "CreateDirectory cfg (Some nm) fs = Some (True, fs1)"
  obtains parent f dir bm sec bm1 dir1 newHdr bm2 d1 nf d2 d3 d4 where
    "GetCurrentDirectory fs = Some parent"
    "OpenFile_new cfg (disk fs) parent = Some f"
    "Directory_FetchFrom cfg (Directory_new NumDirEntries) f (disk fs) = Some dir"
    "BitMap_FetchFrom cfg (BitMap_new (NumSectors cfg)) (freeMapFile fs) (disk fs) = Some bm"
    "BitMap_Find bm = (sec, bm1)" "sec \<noteq> - 1"
    "Directory_Add dir nm sec DIR_TYPE = (True, dir1)"
    "Allocate cfg bm1 (DirectoryFileSize cfg) = Some (newHdr, bm2)"
    "FileHeader_WriteBack cfg newHdr sec (disk fs) = Some d1"
    "OpenFile_new cfg d1 sec = Some nf"
    "Directory_WriteBack cfg
       (snd (Directory_Add (snd (Directory_Add (Directory_new NumDirEntries) ''.''
          sec DIR_TYPE)) ''..'' parent DIR_TYPE)) nf d1 = Some d2"
    "Directory_WriteBack cfg dir1 f d2 = Some d3"
    "BitMap_WriteBack cfg bm2 (freeMapFile fs) d3 = Some d4"
    "fs1 = fs\<lparr>disk := d4\<rparr>"
  using assms unfolding CreateDirectory_def GetCurrentDirectory_def
  by (cases "BitMap_Find (the (BitMap_FetchFrom cfg (BitMap_new (NumSectors cfg))
                (freeMapFile fs) (disk fs)))")
     (auto simp: bind_eq_Some_conv Let_def case_prod_beta prod_eq_iff
           split: if_splits option.splits)

lemma metadata_intactD:
  assumes "metadata_intact cfg fs"
    and "GetCurrentDirectory fs = Some cur"
    and "OpenFile_new cfg (disk fs) cur = Some f"
    and "BitMap_FetchFrom cfg (BitMap_new (NumSectors cfg)) (freeMapFile fs) (disk fs) = Some bm"
  obtains P M where "table_sectors cfg f = Some P" "P \<noteq> []"
    "map_sectors cfg (freeMapFile fs) = Some M" "M \<noteq> []"
    "Test bm cur" "\<forall>s\<in>set P. Test bm s" "\<forall>s\<in>set M. Test bm s"
  using assms
  by (auto simp: metadata_intact_def free_space_map_def list_all_iff split: option.splits)

lemma metadata_intact_loads:
  assumes "metadata_intact cfg fs"
  obtains cur f P M bm dir where
    "GetCurrentDirectory fs = Some cur" "OpenFile_new cfg (disk fs) cur = Some f"
    "table_sectors cfg f = Some P" "P \<noteq> []"
    "map_sectors cfg (freeMapFile fs) = Some M" "M \<noteq> []"
    "BitMap_FetchFrom cfg (BitMap_new (NumSectors cfg)) (freeMapFile fs) (disk fs) = Some bm"
    "Directory_FetchFrom cfg (Directory_new NumDirEntries) f (disk fs) = Some dir"
  using assms
  by (auto simp: metadata_intact_def free_space_map_def split: option.splits)

text \<open>Where the metadata is in place \<^verbatim>\<open>Create\<close> returns, with success or with
  failure: no run leaves the model.\<close>

lemma Create_returns:
  assumes "metadata_intact cfg fs"
  shows "Create cfg name initialSize fs \<noteq> None"
proof -
  from assms obtain cur f P M bm dir where
    g: "GetCurrentDirectory fs = Some cur" and
    o: "OpenFile_new cfg (disk fs) cur = Some f" and
    P: "table_sectors cfg f = Some P" and Pn: "P \<noteq> []" and
    M: "map_sectors cfg (freeMapFile fs) = Some M" and Mn: "M \<noteq> []" and
    fb: "BitMap_FetchFrom cfg (BitMap_new (NumSectors cfg)) (freeMapFile fs) (disk fs) = Some bm" and
    fd: "Directory_FetchFrom cfg (Directory_new NumDirEntries) f (disk fs) = Some dir"
    by (rule metadata_intact_loads)
  have ld: "length dir = NumDirEntries"
    using Directory_FetchFrom_length [OF fd] by (simp add: length_Directory_new)
  have lb: "length bm = nat (NumSectors cfg)"
    using BitMap_FetchFrom_length [OF fb] by (simp add: length_BitMap_new)
  have Pr: "\<forall>s\<in>set P. in_range cfg s"
    using fd by (simp add: Directory_FetchFrom_table [OF P Pn])
  have Mr: "\<forall>s\<in>set M. in_range cfg s"
    using fb by (simp add: BitMap_FetchFrom_map [OF M Mn])
  have wd: "Directory_WriteBack cfg dir' f d \<noteq> None" if "length dir' = NumDirEntries" for dir' d
    using Pr by (simp add: Directory_WriteBack_table [OF P that])
  have wm: "BitMap_WriteBack cfg bm' (freeMapFile fs) d \<noteq> None"
    if "length bm' = nat (NumSectors cfg)" for bm' d
    using Mr by (simp add: BitMap_WriteBack_map [OF M that])
  obtain sec bm1 where bf: "BitMap_Find bm = (sec, bm1)" by (cases "BitMap_Find bm")
  show ?thesis
  proof (cases "\<exists>nm. name = Some nm \<and> nm \<noteq> [] \<and> 0 \<le> initialSize \<and> in_range cfg cur \<and>
                  Directory_Find dir nm = - 1 \<and> sec \<noteq> - 1")
    case False
    then show ?thesis
      using g o fd fb bf
      by (auto simp: Create_def in_range_def split: option.splits)
  next
    case True
    then obtain nm where n: "name = Some nm" "nm \<noteq> []" "0 \<le> initialSize" "in_range cfg cur"
      "Directory_Find dir nm = - 1" "sec \<noteq> - 1" by blast
    from BitMap_Find_found [OF bf n(6)]
    have sec: "0 \<le> sec" "sec < int (length bm)" "bm1 = bm[nat sec := True]" by auto
    then have rs: "in_range cfg sec" using lb by (auto simp: in_range_def split: if_splits)
    obtain added dir1 where ad: "Directory_Add dir nm sec FILE_TYPE = (added, dir1)"
      by (cases "Directory_Add dir nm sec FILE_TYPE")
    have ld1: "length dir1 = NumDirEntries"
      using Directory_Add_length [of dir nm sec FILE_TYPE] ad ld by simp
    show ?thesis
    proof (cases "Allocate cfg bm1 initialSize")
      case None
      then show ?thesis
        using n g o fd fb bf ad by (auto simp: Create_def in_range_def)
    next
      case (Some r)
      obtain newHdr bm2 where r: "r = (newHdr, bm2)" by (cases r)
      have lb2: "length bm2 = nat (NumSectors cfg)"
        using Allocate_Some [of cfg bm1 initialSize newHdr bm2] Some r sec(3) lb by simp
      obtain d1 where w1: "FileHeader_WriteBack cfg newHdr sec (disk fs) = Some d1"
        using rs by (simp add: FileHeader_WriteBack_def WriteSector_Some)
      obtain d2 where w2: "Directory_WriteBack cfg dir1 f d1 = Some d2"
        using wd [OF ld1, of d1] by auto
      obtain d3 where w3: "BitMap_WriteBack cfg bm2 (freeMapFile fs) d2 = Some d3"
        using wm [OF lb2, of d2] by auto
      show ?thesis
        using n g o fd fb bf ad Some r w1 w2 w3 by (auto simp: Create_def in_range_def)
    qed
  qed
qed

lemma CreateDirectory_returns:
  assumes "metadata_intact cfg fs"
  shows "CreateDirectory cfg (Some nm) fs \<noteq> None"
proof -
  from assms obtain cur f P M bm dir where
    g: "GetCurrentDirectory fs = Some cur" and
    o: "OpenFile_new cfg (disk fs) cur = Some f" and
    P: "table_sectors cfg f = Some P" and Pn: "P \<noteq> []" and
    M: "map_sectors cfg (freeMapFile fs) = Some M" and Mn: "M \<noteq> []" and
    fb: "BitMap_FetchFrom cfg (BitMap_new (NumSectors cfg)) (freeMapFile fs) (disk fs) = Some bm" and
    fd: "Directory_FetchFrom cfg (Directory_new NumDirEntries) f (disk fs) = Some dir"
    by (rule metadata_intact_loads)
  from g obtain t where t: "currentThread fs = Some t" "currentDirectory t = cur"
    by (auto simp: GetCurrentDirectory_def split: option.splits)
  have c0: "0 \<le> cur" using o by (simp add: OpenFile_new_Some in_range_def)
  have ld: "length dir = NumDirEntries"
    using Directory_FetchFrom_length [OF fd] by (simp add: length_Directory_new)
  have lb: "length bm = nat (NumSectors cfg)"
    using BitMap_FetchFrom_length [OF fb] by (simp add: length_BitMap_new)
  have Pr: "\<forall>s\<in>set P. in_range cfg s"
    using fd by (simp add: Directory_FetchFrom_table [OF P Pn])
  have Mr: "\<forall>s\<in>set M. in_range cfg s"
    using fb by (simp add: BitMap_FetchFrom_map [OF M Mn])
  have sizes: "0 < DirectoryFileSize cfg" "0 < SectorSize cfg"
    using transfer_sectors_whole [of cfg f "DirectoryFileSize cfg" P] P Pn
    by (auto simp: table_sectors_def table_bytes_DirectoryFileSize)
  obtain sec bm1 where bf: "BitMap_Find bm = (sec, bm1)" by (cases "BitMap_Find bm")
  obtain added dir1 where ad: "Directory_Add dir nm sec DIR_TYPE = (added, dir1)"
    by (cases "Directory_Add dir nm sec DIR_TYPE")
  have ld1: "length dir1 = NumDirEntries"
    using Directory_Add_length [of dir nm sec DIR_TYPE] ad ld by simp
  show ?thesis
  proof (cases "Directory_Find dir nm = - 1 \<and> sec \<noteq> - 1 \<and> added \<and>
                Allocate cfg bm1 (DirectoryFileSize cfg) \<noteq> None")
    case False
    then show ?thesis
      using t c0 o fd fb bf ad by (auto simp: CreateDirectory_def split: option.splits)
  next
    case True
    then obtain newHdr bm2 where n: "Directory_Find dir nm = - 1" "sec \<noteq> - 1" "added"
      and al: "Allocate cfg bm1 (DirectoryFileSize cfg) = Some (newHdr, bm2)" by auto
    let ?new = "snd (Directory_Add (snd (Directory_Add (Directory_new NumDirEntries) ''.''
          sec DIR_TYPE)) ''..'' cur DIR_TYPE)"
    from BitMap_Find_found [OF bf n(2)]
    have sec: "0 \<le> sec" "sec < int (length bm)" "bm1 = bm[nat sec := True]" by auto
    then have rs: "in_range cfg sec" using lb by (auto simp: in_range_def split: if_splits)
    have lb2: "length bm2 = nat (NumSectors cfg)"
      using Allocate_Some [OF al] sec(3) lb by simp
    have Sr: "\<forall>s\<in>set (fh_dataSectors newHdr). in_range cfg s"
      using Allocate_Some [OF al] sec(3) lb by (auto simp: in_range_def split: if_splits)
    define d1 where "d1 = (disk fs)\<lparr>sectors := (sectors (disk fs))(sec := HeaderBlock newHdr),
                                    writes := writes (disk fs) @ [(sec, HeaderBlock newHdr)]\<rparr>"
    define nf where "nf = \<lparr>of_hdr = newHdr, of_seekPosition = 0\<rparr>"
    have w1: "FileHeader_WriteBack cfg newHdr sec (disk fs) = Some d1"
      using rs by (simp add: FileHeader_WriteBack_def WriteSector_Some d1_def)
    have o2: "OpenFile_new cfg d1 sec = Some nf"
      using rs by (simp add: OpenFile_new_Some d1_def nf_def)
    have S: "table_sectors cfg nf = Some (fh_dataSectors newHdr)"
      using transfer_sectors_exact [of "DirectoryFileSize cfg" cfg nf] sizes Allocate_header [OF al]
      by (simp add: table_sectors_def table_bytes_DirectoryFileSize nf_def)
    have ln: "length ?new = NumDirEntries"
      by (simp add: Directory_Add_length length_Directory_new)
    obtain d2 where w2: "Directory_WriteBack cfg ?new nf d1 = Some d2"
      using Sr by (simp add: Directory_WriteBack_table [OF S ln])
    obtain d3 where w3: "Directory_WriteBack cfg dir1 f d2 = Some d3"
      using Pr by (simp add: Directory_WriteBack_table [OF P ld1])
    obtain d4 where w4: "BitMap_WriteBack cfg bm2 (freeMapFile fs) d3 = Some d4"
      using Mr by (simp add: BitMap_WriteBack_map [OF M lb2])
    show ?thesis
      using n t c0 o fd fb bf ad al w1 o2 w2 w3 w4 by (simp add: CreateDirectory_def)
  qed
qed

lemma find_upt_Some:
  "find P [0..<n] = Some h \<longleftrightarrow> h < n \<and> P h \<and> (\<forall>j<h. \<not> P j)"
  by (auto simp: find_Some_iff)

lemma find_upt_None: "find P [0..<n] = None \<longleftrightarrow> (\<forall>j<n. \<not> P j)"
  by (auto simp: find_None_iff)

section \<open>Positional reads on the small device\<close>

lemma example_read_step:
  assumes "open_at c fs" and "0 < n" and "n \<le> 100"
  shows "fst (ReadAt example_io example_config 0 (Some 7) n 0 fs) = n \<and>
         open_at (int32 (c + n)) (example_read n fs)"
proof -
  from assms(1) obtain f where v: "IsValidHandle example_config fs 0"
    and f: "openFile (openFilesTable fs 0) = Some f" and l: "fh_numBytes (of_hdr f) = 100"
    and c: "currentPosition (openFilesTable fs 0) = c"
    by (auto simp: open_at_def)
  have r: "ReadAt example_io example_config 0 (Some 7) n 0 fs =
             (n, set_slot fs 0 f (int32 (c + n)) (disk fs))"
    using v f l c assms(2,3)
    by (simp add: ReadAt_def example_io_def example_count_def)
  from v have "IsValidHandle example_config (set_slot fs 0 f (int32 (c + n)) (disk fs)) 0"
    by (simp add: IsValidHandle_def set_slot_def)
  with r l show ?thesis
    by (simp add: open_at_def example_read_def set_slot_def)
qed

lemma example_reads:
  assumes "open_at 0 fs" and "100 * int k < 2147483648"
  shows "open_at (100 * int k) ((example_read 100 ^^ k) fs)"
  using assms(2)
proof (induction k)
  case 0
  with assms(1) show ?case by simp
next
  case (Suc k)
  then have "open_at (100 * int k) ((example_read 100 ^^ k) fs)" by simp
  from example_read_step [OF this, of 100] Suc.prems show ?case
    by (simp add: int32_def)
qed

section \<open>Create\<close>

text \<open>
  C1. A call of \<^verbatim>\<open>Create\<close> that returns failure, for whatever reason (null or
  empty name, negative size, name already present, no free header sector,
  directory full, data allocation refused), issues no sector write: the log of
  writes and the content of every sector are as before the call, and so are
  the persisted free-space map, the persisted current directory and every
  header on the device. The whole state is in fact unchanged.
\<close>

theorem Create_failure_writes_nothing:
  assumes "Create cfg name initialSize fs = Some (False, fs')"
  shows "writes (disk fs') = writes (disk fs) \<and> sectors (disk fs') = sectors (disk fs) \<and>
         free_space_map cfg fs' = free_space_map cfg fs \<and>
         current_directory cfg fs' = current_directory cfg fs \<and>
         (\<forall>s. FileHeader_FetchFrom cfg (disk fs') s = FileHeader_FetchFrom cfg (disk fs) s) \<and>
         fs' = fs"
proof -
  from assms have "fs' = fs"
    unfolding Create_def
    by (auto split: option.splits if_splits prod.splits Option.bind_splits simp: Let_def)
  then show ?thesis by simp
qed

theorem Create_failure_writes_nothing_witness:
  "map_option fst (Create example_config (Some ''.'') 100 formatted) = Some False \<and>
   map_option (\<lambda>r. writes (disk (snd r))) (Create example_config (Some ''.'') 100 formatted)
     = Some (writes (disk formatted)) \<and>
   map_option snd (Create example_config (Some ''.'') 100 formatted) = Some formatted"
proof -
  have "map_option fst (Create example_config (Some ''.'') 100 formatted) = Some False"
    by code_simp
  then obtain fs' where c: "Create example_config (Some ''.'') 100 formatted = Some (False, fs')"
    by (cases "Create example_config (Some ''.'') 100 formatted") auto
  from Create_failure_writes_nothing [OF c] c show ?thesis by simp
qed

text \<open>
  C3. When the name is present in the current directory, that is, when the
  lookup \<^verbatim>\<open>Find\<close> in the persisted current directory finds it, \<^verbatim>\<open>Create\<close> with
  that name returns failure whatever the requested size, and changes nothing.
\<close>

theorem Create_existing_name_fails:
  assumes "current_directory cfg fs = Some dir" and "Directory_Find dir nm \<noteq> - 1"
  shows "Create cfg (Some nm) initialSize fs = Some (False, fs)"
  using assms unfolding Create_def current_directory_def directory_at_def
  by (auto split: option.splits if_splits prod.splits Option.bind_splits
      simp: Let_def OpenFile_new_def FileHeader_FetchFrom_def ReadSector_def)

theorem Create_existing_name_fails_witness:
  "map_option (\<lambda>dir. Directory_Find dir ''..'') (current_directory example_config formatted)
     = Some 1 \<and>
   Create example_config (Some ''..'') 7 formatted = Some (False, formatted)"
proof -
  have "current_directory example_config formatted \<noteq> None" by code_simp
  then obtain dir where d: "current_directory example_config formatted = Some dir" by blast
  have e: "map_option (\<lambda>dir. Directory_Find dir ''..'')
             (current_directory example_config formatted) = Some 1"
    by code_simp
  with d have "Directory_Find dir ''..'' \<noteq> - 1" by simp
  from Create_existing_name_fails [OF d this] e show ?thesis by simp
qed

text \<open>
  C2, as amended. In a file system whose metadata is in place (the file of the
  current directory holds a whole table, the map file a whole map, and the
  persisted free-space map marks the header sector of the current directory and
  the sectors that hold the table and the map), when \<^verbatim>\<open>Create(name, size)\<close>
  succeeds, an immediately following \<^verbatim>\<open>Remove(name)\<close> succeeds and the
  persisted free-space map is again exactly the one before the \<^verbatim>\<open>Create\<close>. In
  between, the map differs from it in the bits of the header sector and of the
  data sectors of the new file, which were clear before, and in no other bit.
\<close>

theorem Create_then_Remove_restores_free_map:
  assumes c: "Create cfg (Some nm) initialSize fs = Some (True, fs1)"
      and inv: "metadata_intact cfg fs"
  shows "\<exists>bm bm1 sec h fs2.
           free_space_map cfg fs = Some bm \<and> free_space_map cfg fs1 = Some bm1 \<and>
           (\<exists>dir1. current_directory cfg fs1 = Some dir1 \<and> Directory_Find dir1 nm = sec) \<and>
           FileHeader_FetchFrom cfg (disk fs1) sec = Some h \<and>
           \<not> Test bm sec \<and> (\<forall>s\<in>set (fh_dataSectors h). \<not> Test bm s) \<and>
           (\<forall>x. Test bm1 x \<longleftrightarrow> Test bm x \<or> x = sec \<or> x \<in> set (fh_dataSectors h)) \<and>
           Remove cfg (Some nm) fs1 = Some (True, fs2) \<and>
           free_space_map cfg fs2 = Some bm \<and>
           metadata_intact cfg fs2"
proof -
  from c obtain cur f dir bm sec bm1 dir1 newHdr bm2 d1 d2 d3 where
    nm: "nm \<noteq> []" and
    g: "GetCurrentDirectory fs = Some cur" and
    o: "OpenFile_new cfg (disk fs) cur = Some f" and
    fd: "Directory_FetchFrom cfg (Directory_new NumDirEntries) f (disk fs) = Some dir" and
    fb: "BitMap_FetchFrom cfg (BitMap_new (NumSectors cfg)) (freeMapFile fs) (disk fs) = Some bm" and
    bf: "BitMap_Find bm = (sec, bm1)" and s1: "sec \<noteq> - 1" and
    ad: "Directory_Add dir nm sec FILE_TYPE = (True, dir1)" and
    al: "Allocate cfg bm1 initialSize = Some (newHdr, bm2)" and
    w1: "FileHeader_WriteBack cfg newHdr sec (disk fs) = Some d1" and
    w2: "Directory_WriteBack cfg dir1 f d1 = Some d2" and
    w3: "BitMap_WriteBack cfg bm2 (freeMapFile fs) d2 = Some d3" and
    fs1: "fs1 = fs\<lparr>disk := d3\<rparr>"
    by (rule Create_steps)
  from inv g o fb obtain P M where
    P: "table_sectors cfg f = Some P" and Pn: "P \<noteq> []" and
    M: "map_sectors cfg (freeMapFile fs) = Some M" and Mn: "M \<noteq> []" and
    marked: "Test bm cur" "\<forall>s\<in>set P. Test bm s" "\<forall>s\<in>set M. Test bm s"
    by (rule metadata_intactD)
  let ?S = "fh_dataSectors newHdr"
  have g1: "GetCurrentDirectory fs1 = Some cur"
    using g by (simp add: fs1 GetCurrentDirectory_def)
  have ld: "length dir = NumDirEntries"
    using Directory_FetchFrom_length [OF fd] by (simp add: length_Directory_new)
  have ld1: "length dir1 = NumDirEntries"
    using Directory_Add_length [of dir nm sec FILE_TYPE] ad ld by simp
  have lb: "length bm = nat (NumSectors cfg)"
    using BitMap_FetchFrom_length [OF fb] by (simp add: length_BitMap_new)
  have sec: "0 \<le> sec" "sec < int (length bm)" "\<not> Test bm sec" "bm1 = bm[nat sec := True]"
    using BitMap_Find_found [OF bf s1] by auto
  have lb2: "length bm2 = nat (NumSectors cfg)"
    using Allocate_Some [OF al] sec(4) lb by simp
  have t1: "Test bm1 x \<longleftrightarrow> x = sec \<or> Test bm x" for x
    using sec by (auto simp: Test_list_update)
  have S: "\<forall>s\<in>set ?S. \<not> Test bm1 s" and t2: "\<forall>x. Test bm2 x \<longleftrightarrow> Test bm1 x \<or> x \<in> set ?S"
    and de: "Deallocate newHdr bm2 = Some bm1"
    using Allocate_Some [OF al] by auto
  have "bm1[nat sec := False] = bm"
    using sec by (simp add: Test_def list_update_same_conv)
  then have cl: "Clear bm1 sec = Some bm"
    using sec by (simp add: Clear_def)
  have cur: "in_range cfg cur" "sectors (disk fs) cur = HeaderBlock (of_hdr f)"
    using o by (auto simp: OpenFile_new_Some)
  have P0: "\<forall>s\<in>set P. in_range cfg s \<and> sectors (disk fs) s = DirectoryBlock dir"
    using fd by (simp add: Directory_FetchFrom_table [OF P Pn])
  have M0: "\<forall>s\<in>set M. in_range cfg s \<and> sectors (disk fs) s = BitMapBlock bm"
    using fb by (simp add: BitMap_FetchFrom_map [OF M Mn])
  have sep: "sec \<noteq> cur" "sec \<notin> set P" "sec \<notin> set M" "cur \<notin> set P" "cur \<notin> set M"
    "set P \<inter> set M = {}"
    using marked sec(3) cur(2) P0 M0 by auto
  have rs: "in_range cfg sec"
    and d1: "sectors d1 = (sectors (disk fs))(sec := HeaderBlock newHdr)"
    using w1 by (auto simp: FileHeader_WriteBack_def WriteSector_Some)
  have d2: "sectors d2 = (\<lambda>x. if x \<in> set P then DirectoryBlock dir1 else sectors d1 x)"
    using w2 by (auto simp: Directory_WriteBack_table [OF P ld1])
  have d3: "sectors d3 = (\<lambda>x. if x \<in> set M then BitMapBlock bm2 else sectors d2 x)"
    using w3 by (auto simp: BitMap_WriteBack_map [OF M lb2])
  have o1: "OpenFile_new cfg d3 cur = Some f"
    using o sep by (auto simp: OpenFile_new_Some d3 d2 d1)
  have fd1: "Directory_FetchFrom cfg (Directory_new NumDirEntries) f d3 = Some dir1"
    using P0 sep ld1 by (auto simp: Directory_FetchFrom_table [OF P Pn] d3 d2)
  have fi: "Directory_Find dir1 nm = sec"
    using Directory_Add_Find [OF ad] by simp
  have fh: "FileHeader_FetchFrom cfg d3 sec = Some newHdr"
    using rs sep by (simp add: FileHeader_FetchFrom_Some d3 d2 d1)
  have fb1: "BitMap_FetchFrom cfg (BitMap_new (NumSectors cfg)) (freeMapFile fs) d3 = Some bm2"
    using M0 lb2 by (auto simp: BitMap_FetchFrom_map [OF M Mn] d3)
  define d4 where "d4 = d3\<lparr>sectors := (\<lambda>x. if x \<in> set M then BitMapBlock bm else sectors d3 x),
                           writes := writes d3 @ map (\<lambda>s. (s, BitMapBlock bm)) M\<rparr>"
  define d5 where "d5 = d4\<lparr>sectors := (\<lambda>x. if x \<in> set P
                                         then DirectoryBlock (Directory_Remove dir1 nm)
                                         else sectors d4 x),
                           writes := writes d4 @
                             map (\<lambda>s. (s, DirectoryBlock (Directory_Remove dir1 nm))) P\<rparr>"
  have w4: "BitMap_WriteBack cfg bm (freeMapFile fs) d3 = Some d4"
    using M0 by (simp add: BitMap_WriteBack_map [OF M lb] d4_def)
  have lr: "length (Directory_Remove dir1 nm) = NumDirEntries"
    by (simp add: Directory_Remove_length ld1)
  have w5: "Directory_WriteBack cfg (Directory_Remove dir1 nm) f d4 = Some d5"
    using P0 by (simp add: Directory_WriteBack_table [OF P lr] d5_def)
  have dk: "disk fs1 = d3" and fm: "freeMapFile fs1 = freeMapFile fs"
    by (simp_all add: fs1)
  have rm: "Remove cfg (Some nm) fs1 = Some (True, fs1\<lparr>disk := d5\<rparr>)"
    using nm cur(1) s1
    by (simp add: Remove_def g1 dk fm o1 fd1 fi fh fb1 de cl w4 w5 in_range_def)
  have m0: "free_space_map cfg fs = Some bm"
    using fb by (simp add: free_space_map_def)
  have m1: "free_space_map cfg fs1 = Some bm2"
    using fb1 by (simp add: free_space_map_def dk fm)
  have m2: "free_space_map cfg (fs1\<lparr>disk := d5\<rparr>) = Some bm"
    using M0 sep lb
    by (auto simp: free_space_map_def fm BitMap_FetchFrom_map [OF M Mn] d5_def d4_def)
  have cd: "current_directory cfg fs1 = Some dir1"
    by (simp add: current_directory_def directory_at_def g1 dk o1 fd1)
  have S0: "\<forall>s\<in>set ?S. \<not> Test bm s" using S t1 by auto
  have T: "\<forall>x. Test bm2 x \<longleftrightarrow> Test bm x \<or> x = sec \<or> x \<in> set ?S" using t1 t2 by auto
  have fh1: "FileHeader_FetchFrom cfg (disk fs1) sec = Some newHdr"
    using fh by (simp add: dk)
  have g2: "GetCurrentDirectory (fs1\<lparr>disk := d5\<rparr>) = Some cur"
    using g1 by (simp add: GetCurrentDirectory_def)
  have o5: "OpenFile_new cfg d5 cur = Some f"
    using o1 sep by (auto simp: OpenFile_new_Some d5_def d4_def)
  have fd5: "Directory_FetchFrom cfg (Directory_new NumDirEntries) f d5 =
               Some (Directory_Remove dir1 nm)"
    using P0 lr by (auto simp: Directory_FetchFrom_table [OF P Pn] d5_def)
  have i2: "metadata_intact cfg (fs1\<lparr>disk := d5\<rparr>)"
    using marked Pn Mn
    by (simp add: metadata_intact_def g2 o5 P M fm m2 fd5 list_all_iff)
  show ?thesis
    using m0 m1 cd fi fh1 sec(3) S0 T rm m2 i2 by blast
qed

theorem Create_then_Remove_restores_free_map_witness:
  "metadata_intact example_config formatted \<and>
   (\<exists>fs1 fs2. Create example_config (Some ''a'') 100 formatted = Some (True, fs1) \<and>
      Remove example_config (Some ''a'') fs1 = Some (True, fs2) \<and>
      free_space_map example_config fs2 = free_space_map example_config formatted)"
proof -
  have m: "metadata_intact example_config formatted" by code_simp
  have "map_option fst (Create example_config (Some ''a'') 100 formatted) = Some True"
    by code_simp
  then obtain fs1 where c: "Create example_config (Some ''a'') 100 formatted = Some (True, fs1)"
    by (cases "Create example_config (Some ''a'') 100 formatted") auto
  from Create_then_Remove_restores_free_map [OF c m] c m show ?thesis by auto
qed

text \<open>
  Without the condition the property fails. On the formatted device,
  \<^verbatim>\<open>Remove(".")\<close> in the root directory succeeds and frees the sector of the root
  directory's header (sector 1) and the sectors of its table. \<^verbatim>\<open>Create("a", 0)\<close>
  then succeeds: it takes sector 1, the first free one, for the header of the new
  file and writes that header over the header of the current directory. From
  then on sector 1 holds the header of an empty file, from which the current
  directory loads as an empty table, and \<^verbatim>\<open>Remove("a")\<close> returns failure: the
  name is not found. The condition holds neither before that \<^verbatim>\<open>Create\<close> nor
  after it.
\<close>

theorem Create_then_Remove_after_removing_dot:
  "map_option fst (Remove example_config (Some ''.'') formatted) = Some True \<and>
   marks example_config without_dot 1 = Some False \<and>
   \<not> metadata_intact example_config without_dot \<and>
   map_option fst (Create example_config (Some ''a'') 0 without_dot) = Some True \<and>
   GetCurrentDirectory with_empty_file = Some 1 \<and>
   FileHeader_FetchFrom example_config (disk with_empty_file) 1
     = Some \<lparr>fh_numBytes = 0, fh_dataSectors = []\<rparr> \<and>
   active_entries example_config (disk with_empty_file) 1 = Some [] \<and>
   resolves example_config with_empty_file ''a'' = Some (- 1) \<and>
   map_option fst (Remove example_config (Some ''a'') with_empty_file) = Some False \<and>
   \<not> metadata_intact example_config with_empty_file"
  by code_simp

section \<open>Open\<close>

text \<open>
  C4, as amended. When a non-empty name resolves in the current directory to a
  sector that an in-use slot of the open-file table already references, \<^verbatim>\<open>Open\<close>
  returns the handle of such a slot, the first one, and leaves the whole state,
  so every slot and the number of slots in use, as it was. When the sector is
  referenced by one slot only, that slot's handle is returned.
\<close>

theorem Open_already_open_returns_slot:
  assumes "nm \<noteq> []" and "current_directory cfg fs = Some dir"
    and "Directory_Find dir nm = sec" and "sec \<noteq> - 1"
    and "i < MAX_OPEN_FILES cfg" and "inUse (openFilesTable fs i)"
    and "sector (openFilesTable fs i) = sec"
  shows "\<exists>h. Open cfg (Some nm) fs = Some (int h, fs) \<and> h \<le> i \<and>
           inUse (openFilesTable fs h) \<and> sector (openFilesTable fs h) = sec \<and>
           ((\<forall>j<MAX_OPEN_FILES cfg.
               inUse (openFilesTable fs j) \<and> sector (openFilesTable fs j) = sec \<longrightarrow> j = i)
            \<longrightarrow> h = i)"
proof -
  let ?P = "\<lambda>j. inUse (openFilesTable fs j) \<and> sector (openFilesTable fs j) = sec"
  from assms(5-7) have "find ?P [0..<MAX_OPEN_FILES cfg] \<noteq> None"
    by (auto simp: find_upt_None)
  then obtain h where h: "find ?P [0..<MAX_OPEN_FILES cfg] = Some h" by blast
  then have hp: "h < MAX_OPEN_FILES cfg" "?P h" "\<forall>j<h. \<not> ?P j"
    by (auto simp: find_upt_Some)
  have "\<not> i < h" using hp(3) assms(6,7) by blast
  then have le: "h \<le> i" by simp
  from assms(2) obtain cur f where
    "GetCurrentDirectory fs = Some cur" "OpenFile_new cfg (disk fs) cur = Some f"
    "Directory_FetchFrom cfg (Directory_new NumDirEntries) f (disk fs) = Some dir"
    by (auto simp: current_directory_def directory_at_def bind_eq_Some_conv)
  then have "Open cfg (Some nm) fs = Some (int h, fs)"
    using assms(1,3,4) h by (simp add: Open_def)
  then show ?thesis using hp le by auto
qed

theorem Open_already_open_returns_slot_witness:
  "inUse (openFilesTable with_open_file 0) \<and> sector (openFilesTable with_open_file 0) = 5 \<and>
   Open example_config (Some ''a'') with_open_file = Some (0, with_open_file)"
proof -
  have "current_directory example_config with_open_file \<noteq> None" by code_simp
  then obtain dir where d: "current_directory example_config with_open_file = Some dir" by blast
  have "map_option (\<lambda>dir. Directory_Find dir ''a'')
          (current_directory example_config with_open_file) = Some 5"
    by code_simp
  with d have f: "Directory_Find dir ''a'' = 5" by simp
  have u: "inUse (openFilesTable with_open_file 0)" by code_simp
  have s: "sector (openFilesTable with_open_file 0) = 5" by code_simp
  have n: "''a'' \<noteq> []" by simp
  have i: "0 < MAX_OPEN_FILES example_config" by (simp add: example_config_def)
  have k: "(5::int) \<noteq> - 1" by simp
  from Open_already_open_returns_slot [OF n d f k i u s] u s show ?thesis by auto
qed

text \<open>
  For the empty name the property fails. \<^verbatim>\<open>Remove\<close> does not touch the open-file
  table and \<^verbatim>\<open>CreateDirectory\<close> does not test the name. On the device with the
  open file "a" (header in sector 5, handle 0), \<^verbatim>\<open>Remove("a")\<close> succeeds and
  frees sector 5 while slot 0 stays in use for it; \<^verbatim>\<open>CreateDirectory("")\<close> then
  succeeds and takes sector 5 for the new directory. The empty name now resolves
  in the current directory to sector 5, which the in-use slot 0 references, and
  \<^verbatim>\<open>Open("")\<close> returns the invalid-handle sentinel, not handle 0.
\<close>

theorem Open_empty_name_of_open_sector:
  "map_option fst (Open example_config (Some ''a'') with_file) = Some 0 \<and>
   map_option fst (Remove example_config (Some ''a'') with_open_file) = Some True \<and>
   map_option fst (CreateDirectory example_config (Some []) with_stale_slot) = Some True \<and>
   resolves example_config with_unnamed_directory [] = Some 5 \<and>
   inUse (openFilesTable with_unnamed_directory 0) \<and>
   sector (openFilesTable with_unnamed_directory 0) = 5 \<and>
   IsValidHandle example_config with_unnamed_directory 0 \<and>
   Open example_config (Some []) with_unnamed_directory
     = Some (INVALID_FILE_HANDLE example_config, with_unnamed_directory) \<and>
   INVALID_FILE_HANDLE example_config \<noteq> 0"
proof -
  have "Open example_config (Some []) with_unnamed_directory
     = Some (INVALID_FILE_HANDLE example_config, with_unnamed_directory)"
    by (simp add: Open_def)
  moreover have
    "map_option fst (Open example_config (Some ''a'') with_file) = Some 0 \<and>
     map_option fst (Remove example_config (Some ''a'') with_open_file) = Some True \<and>
     map_option fst (CreateDirectory example_config (Some []) with_stale_slot) = Some True \<and>
     resolves example_config with_unnamed_directory [] = Some 5 \<and>
     inUse (openFilesTable with_unnamed_directory 0) \<and>
     sector (openFilesTable with_unnamed_directory 0) = 5 \<and>
     IsValidHandle example_config with_unnamed_directory 0 \<and>
     INVALID_FILE_HANDLE example_config \<noteq> 0"
    by code_simp
  ultimately show ?thesis by simp
qed

text \<open>
  C8. When the lookup of the name in the persisted current directory finds
  nothing, \<^verbatim>\<open>Open\<close> returns the invalid-handle sentinel and the state, so every
  slot of the open-file table, is unchanged.
\<close>

theorem Open_missing_name_invalid:
  assumes "current_directory cfg fs = Some dir" and "Directory_Find dir nm = - 1"
  shows "Open cfg (Some nm) fs = Some (INVALID_FILE_HANDLE cfg, fs)"
  using assms unfolding Open_def current_directory_def directory_at_def
  by (auto split: Option.bind_splits simp: Let_def)

theorem Open_missing_name_invalid_witness:
  "map_option (\<lambda>dir. Directory_Find dir ''missing'')
     (current_directory example_config formatted) = Some (- 1) \<and>
   Open example_config (Some ''missing'') formatted
     = Some (INVALID_FILE_HANDLE example_config, formatted)"
proof -
  have "current_directory example_config formatted \<noteq> None" by code_simp
  then obtain dir where d: "current_directory example_config formatted = Some dir" by blast
  have e: "map_option (\<lambda>dir. Directory_Find dir ''missing'')
          (current_directory example_config formatted) = Some (- 1)"
    by code_simp
  with d have "Directory_Find dir ''missing'' = - 1" by simp
  from Open_missing_name_invalid [OF d this] e show ?thesis by simp
qed

section \<open>ChangeDirectory\<close>

text \<open>
  C5. \<^verbatim>\<open>ChangeDirectory(name)\<close> succeeds exactly when the name is non-null and
  non-empty, resolves in the persisted current directory to an entry of type
  DIR, and the resolved sector is in range. On success the current-directory
  sector of the execution context is the resolved sector and nothing else
  changes, so that resolving to the current sector itself, as "." does, leaves
  the state as it was; when the call returns failure the state is unchanged.
\<close>

theorem ChangeDirectory_succeeds_iff:
  "((\<exists>fs'. ChangeDirectory cfg name fs = Some (True, fs')) \<longleftrightarrow>
      (\<exists>nm dir. name = Some nm \<and> nm \<noteq> [] \<and> current_directory cfg fs = Some dir \<and>
         GetEntryType dir nm = Some DIR_TYPE \<and> in_range cfg (Directory_Find dir nm))) \<and>
   (\<forall>fs'. ChangeDirectory cfg name fs = Some (True, fs') \<longrightarrow>
      (\<exists>nm dir. name = Some nm \<and> current_directory cfg fs = Some dir \<and>
         GetCurrentDirectory fs' = Some (Directory_Find dir nm) \<and>
         SetCurrentDirectory (Directory_Find dir nm) fs = Some fs' \<and>
         (GetCurrentDirectory fs = Some (Directory_Find dir nm) \<longrightarrow> fs' = fs))) \<and>
   (\<forall>fs'. ChangeDirectory cfg name fs = Some (False, fs') \<longrightarrow> fs' = fs)"
proof (intro conjI allI impI)
  show "(\<exists>fs'. ChangeDirectory cfg name fs = Some (True, fs')) \<longleftrightarrow>
      (\<exists>nm dir. name = Some nm \<and> nm \<noteq> [] \<and> current_directory cfg fs = Some dir \<and>
         GetEntryType dir nm = Some DIR_TYPE \<and> in_range cfg (Directory_Find dir nm))"
  proof
    assume "\<exists>fs'. ChangeDirectory cfg name fs = Some (True, fs')"
    then show "\<exists>nm dir. name = Some nm \<and> nm \<noteq> [] \<and> current_directory cfg fs = Some dir \<and>
         GetEntryType dir nm = Some DIR_TYPE \<and> in_range cfg (Directory_Find dir nm)"
      unfolding ChangeDirectory_def current_directory_def directory_at_def
      by (auto simp: bind_eq_Some_conv Let_def in_range_def
          split: option.splits if_splits)
  next
    assume "\<exists>nm dir. name = Some nm \<and> nm \<noteq> [] \<and> current_directory cfg fs = Some dir \<and>
         GetEntryType dir nm = Some DIR_TYPE \<and> in_range cfg (Directory_Find dir nm)"
    then obtain nm dir t f where n: "name = Some nm" "nm \<noteq> []"
      and t: "currentThread fs = Some t"
      and f: "OpenFile_new cfg (disk fs) (currentDirectory t) = Some f"
      and d: "Directory_FetchFrom cfg (Directory_new NumDirEntries) f (disk fs) = Some dir"
      and e: "GetEntryType dir nm = Some DIR_TYPE"
      and r: "in_range cfg (Directory_Find dir nm)"
      by (auto simp: current_directory_def directory_at_def GetCurrentDirectory_def
          bind_eq_Some_conv split: option.splits)
    from f have "in_range cfg (currentDirectory t)" by (simp add: OpenFile_new_Some)
    with n t f d e r
    have "ChangeDirectory cfg name fs =
            Some (True, fs\<lparr>currentThread := Some (t\<lparr>currentDirectory := Directory_Find dir nm\<rparr>)\<rparr>)"
      by (auto simp: ChangeDirectory_def GetCurrentDirectory_def SetCurrentDirectory_def
          in_range_def)
    then show "\<exists>fs'. ChangeDirectory cfg name fs = Some (True, fs')" by blast
  qed
next
  fix fs' assume "ChangeDirectory cfg name fs = Some (True, fs')"
  then show "\<exists>nm dir. name = Some nm \<and> current_directory cfg fs = Some dir \<and>
         GetCurrentDirectory fs' = Some (Directory_Find dir nm) \<and>
         SetCurrentDirectory (Directory_Find dir nm) fs = Some fs' \<and>
         (GetCurrentDirectory fs = Some (Directory_Find dir nm) \<longrightarrow> fs' = fs)"
    unfolding ChangeDirectory_def current_directory_def directory_at_def
    by (auto simp: bind_eq_Some_conv Let_def SetCurrentDirectory_def GetCurrentDirectory_def
        split: option.splits if_splits)
next
  fix fs' assume "ChangeDirectory cfg name fs = Some (False, fs')"
  then show "fs' = fs"
    unfolding ChangeDirectory_def
    by (auto simp: bind_eq_Some_conv Let_def SetCurrentDirectory_def
        split: option.splits if_splits)
qed

theorem ChangeDirectory_succeeds_iff_witness:
  "(\<exists>fs'. ChangeDirectory example_config (Some ''.'') formatted = Some (True, fs') \<and>
      GetCurrentDirectory fs' = Some 1) \<and>
   ChangeDirectory example_config (Some ''missing'') formatted = Some (False, formatted)"
proof -
  have "map_option fst (ChangeDirectory example_config (Some ''.'') formatted) = Some True"
    by code_simp
  then obtain fs' where c: "ChangeDirectory example_config (Some ''.'') formatted = Some (True, fs')"
    by (cases "ChangeDirectory example_config (Some ''.'') formatted") auto
  have e: "map_option (\<lambda>dir. Directory_Find dir ''.'') (current_directory example_config formatted)
          = Some 1"
    by code_simp
  from ChangeDirectory_succeeds_iff [of example_config "Some ''.''" formatted] c e
  have 1: "GetCurrentDirectory fs' = Some 1" by auto
  have "map_option fst (ChangeDirectory example_config (Some ''missing'') formatted) = Some False"
    by code_simp
  then obtain fs2 where
    c2: "ChangeDirectory example_config (Some ''missing'') formatted = Some (False, fs2)"
    by (cases "ChangeDirectory example_config (Some ''missing'') formatted") auto
  from ChangeDirectory_succeeds_iff [of example_config "Some ''missing''" formatted] c2
  have "fs2 = formatted" by blast
  with c c2 1 show ?thesis by auto
qed

section \<open>Formatting\<close>

text \<open>
  C6. The constants are parameters here, so the statement names what any build
  satisfies: the two bootstrap files are not empty, that is
  \<^verbatim>\<open>NumSectors / BitsInByte\<close> and \<^verbatim>\<open>sizeof(DirectoryEntry) * NumDirEntries\<close> are
  positive. When the constructor then runs to completion with
  \<^verbatim>\<open>format = TRUE\<close>, on a blank device or on any other (it does when the device
  has room, lemma \<open>format_completes\<close>), the persisted free-space map has the
  bits of sector 0 and of sector 1 set, and the persisted root directory, read
  through the header in sector 1, has exactly two active entries: "." and "..",
  both of type DIR and both with the root directory's own sector.
\<close>

theorem format_marks_bootstrap_and_seeds_root:
  assumes "FileSystem_new cfg True d0 thr = Some fs"
    and "0 < FreeMapFileSize cfg" and "0 < DirectoryFileSize cfg"
  shows "(\<exists>bm. free_space_map cfg fs = Some bm \<and> Test bm FreeMapSector \<and> Test bm DirectorySector) \<and>
         (\<exists>dir. directory_at cfg (disk fs) DirectorySector = Some dir \<and>
            filter de_inUse dir = dot_entries DirectorySector DirectorySector)"
  by (rule format_result [OF assms]) (simp add: seeded_active)

theorem format_marks_bootstrap_and_seeds_root_witness:
  "FileSystem_new example_config True blank_disk (Some \<lparr>currentDirectory = 0\<rparr>) \<noteq> None \<and>
   0 < FreeMapFileSize example_config \<and> 0 < DirectoryFileSize example_config \<and>
   map_option (\<lambda>bm. (Test bm 0, Test bm 1)) (free_space_map example_config formatted)
     = Some (True, True) \<and>
   map_option (filter de_inUse) (directory_at example_config (disk formatted) 1)
     = Some (dot_entries 1 1)"
proof -
  have n: "FileSystem_new example_config True blank_disk (Some \<lparr>currentDirectory = 0\<rparr>) \<noteq> None"
    by code_simp
  then have r: "FileSystem_new example_config True blank_disk (Some \<lparr>currentDirectory = 0\<rparr>)
               = Some formatted"
    by (auto simp: formatted_def)
  have s: "0 < FreeMapFileSize example_config" "0 < DirectoryFileSize example_config"
    by (simp_all add: FreeMapFileSize_def DirectoryFileSize_def example_config_def
        NumDirEntries_def)
  from format_marks_bootstrap_and_seeds_root [OF r s] n s show ?thesis
    by (auto simp: FreeMapSector_def DirectorySector_def)
qed

section \<open>CreateDirectory\<close>

text \<open>
  C7, as amended. In a file system whose metadata is in place (the file of the
  parent directory holds a whole table, the map file a whole map, and the
  persisted free-space map marks the header sector of the parent directory and
  the sectors that hold the table and the map), when \<^verbatim>\<open>CreateDirectory(name)\<close>
  succeeds, its sector writes are, in this order: the header of the new
  directory at its sector, then the content of the new directory at the data
  sectors of that header, of which there is at least one; only then the
  write-back of the parent directory, in which the name now resolves to the new
  sector with type DIR, and the write-back of the free-space map. After the call,
  as already before the parent was written back, the new sector holds a directory
  with exactly two active entries, both of type DIR: "." with the new
  directory's own sector and ".." with the parent's sector.
\<close>

theorem CreateDirectory_seeds_then_links:
  assumes c: "CreateDirectory cfg (Some nm) fs = Some (True, fs1)"
      and inv: "metadata_intact cfg fs"
  shows "\<exists>sec parent newHdr newDir f dir1 bm2 d2 d3 P M.
     GetCurrentDirectory fs = Some parent \<and> OpenFile_new cfg (disk fs) parent = Some f \<and>
     filter de_inUse newDir = dot_entries sec parent \<and>
     fh_dataSectors newHdr \<noteq> [] \<and>
     writes d2 =
       writes (disk fs) @ (sec, HeaderBlock newHdr) #
       map (\<lambda>s. (s, DirectoryBlock newDir)) (fh_dataSectors newHdr) \<and>
     directory_at cfg d2 sec = Some newDir \<and>
     Directory_Find dir1 nm = sec \<and> GetEntryType dir1 nm = Some DIR_TYPE \<and>
     Directory_WriteBack cfg dir1 f d2 = Some d3 \<and>
     BitMap_WriteBack cfg bm2 (freeMapFile fs) d3 = Some (disk fs1) \<and>
     table_sectors cfg f = Some P \<and> P \<noteq> [] \<and>
     map_sectors cfg (freeMapFile fs) = Some M \<and> M \<noteq> [] \<and>
     writes (disk fs1) =
       writes d2 @
       map (\<lambda>s. (s, DirectoryBlock dir1)) P @ map (\<lambda>s. (s, BitMapBlock bm2)) M \<and>
     directory_at cfg (disk fs1) sec = Some newDir \<and>
     current_directory cfg fs1 = Some dir1"
proof -
  from c obtain parent f dir bm sec bm1 dir1 newHdr bm2 d1 nf d2 d3 d4 where
    g: "GetCurrentDirectory fs = Some parent" and
    o: "OpenFile_new cfg (disk fs) parent = Some f" and
    fd: "Directory_FetchFrom cfg (Directory_new NumDirEntries) f (disk fs) = Some dir" and
    fb: "BitMap_FetchFrom cfg (BitMap_new (NumSectors cfg)) (freeMapFile fs) (disk fs) = Some bm" and
    bf: "BitMap_Find bm = (sec, bm1)" and s1: "sec \<noteq> - 1" and
    ad: "Directory_Add dir nm sec DIR_TYPE = (True, dir1)" and
    al: "Allocate cfg bm1 (DirectoryFileSize cfg) = Some (newHdr, bm2)" and
    w1: "FileHeader_WriteBack cfg newHdr sec (disk fs) = Some d1" and
    o2: "OpenFile_new cfg d1 sec = Some nf" and
    w2: "Directory_WriteBack cfg
       (snd (Directory_Add (snd (Directory_Add (Directory_new NumDirEntries) ''.''
          sec DIR_TYPE)) ''..'' parent DIR_TYPE)) nf d1 = Some d2" and
    w3: "Directory_WriteBack cfg dir1 f d2 = Some d3" and
    w4: "BitMap_WriteBack cfg bm2 (freeMapFile fs) d3 = Some d4" and
    fs1: "fs1 = fs\<lparr>disk := d4\<rparr>"
    by (rule CreateDirectory_steps)
  from inv g o fb obtain P M where
    P: "table_sectors cfg f = Some P" and Pn: "P \<noteq> []" and
    M: "map_sectors cfg (freeMapFile fs) = Some M" and Mn: "M \<noteq> []" and
    marked: "Test bm parent" "\<forall>s\<in>set P. Test bm s" "\<forall>s\<in>set M. Test bm s"
    by (rule metadata_intactD)
  let ?new = "snd (Directory_Add (snd (Directory_Add (Directory_new NumDirEntries) ''.''
          sec DIR_TYPE)) ''..'' parent DIR_TYPE)"
  let ?S = "fh_dataSectors newHdr"
  have dk: "disk fs1 = d4" by (simp add: fs1)
  have g1: "GetCurrentDirectory fs1 = Some parent"
    using g by (simp add: fs1 GetCurrentDirectory_def)
  have ld: "length dir = NumDirEntries"
    using Directory_FetchFrom_length [OF fd] by (simp add: length_Directory_new)
  have ld1: "length dir1 = NumDirEntries"
    using Directory_Add_length [of dir nm sec DIR_TYPE] ad ld by simp
  have ln: "length ?new = NumDirEntries"
    by (simp add: Directory_Add_length length_Directory_new)
  have lb: "length bm = nat (NumSectors cfg)"
    using BitMap_FetchFrom_length [OF fb] by (simp add: length_BitMap_new)
  have sec: "\<not> Test bm sec" "bm1 = bm[nat sec := True]" "0 \<le> sec" "sec < int (length bm)"
    using BitMap_Find_found [OF bf s1] by auto
  have lb2: "length bm2 = nat (NumSectors cfg)"
    using Allocate_Some [OF al] sec(2) lb by simp
  have sizes: "0 < DirectoryFileSize cfg" "0 < SectorSize cfg"
    using transfer_sectors_whole [of cfg f "DirectoryFileSize cfg" P] P Pn
    by (auto simp: table_sectors_def table_bytes_DirectoryFileSize)
  have rs: "in_range cfg sec"
    and d1: "sectors d1 = (sectors (disk fs))(sec := HeaderBlock newHdr)"
    and l1: "writes d1 = writes (disk fs) @ [(sec, HeaderBlock newHdr)]"
    using w1 by (auto simp: FileHeader_WriteBack_def WriteSector_Some)
  have nf: "of_hdr nf = newHdr"
    using o2 by (simp add: OpenFile_new_Some d1)
  have S: "table_sectors cfg nf = Some ?S" and Sn: "?S \<noteq> []"
    using transfer_sectors_exact [of "DirectoryFileSize cfg" cfg nf] sizes Allocate_header [OF al]
    by (simp_all add: table_sectors_def table_bytes_DirectoryFileSize nf)
  have Sr: "\<forall>s\<in>set ?S. in_range cfg s"
    and d2: "sectors d2 = (\<lambda>x. if x \<in> set ?S then DirectoryBlock ?new else sectors d1 x)"
    and l2: "writes d2 = writes d1 @ map (\<lambda>s. (s, DirectoryBlock ?new)) ?S"
    using w2 by (auto simp: Directory_WriteBack_table [OF S ln])
  have Pr: "\<forall>s\<in>set P. in_range cfg s"
    and d3: "sectors d3 = (\<lambda>x. if x \<in> set P then DirectoryBlock dir1 else sectors d2 x)"
    and l3: "writes d3 = writes d2 @ map (\<lambda>s. (s, DirectoryBlock dir1)) P"
    using w3 by (auto simp: Directory_WriteBack_table [OF P ld1])
  have Mr: "\<forall>s\<in>set M. in_range cfg s"
    and d4: "sectors d4 = (\<lambda>x. if x \<in> set M then BitMapBlock bm2 else sectors d3 x)"
    and l4: "writes d4 = writes d3 @ map (\<lambda>s. (s, BitMapBlock bm2)) M"
    using w4 by (auto simp: BitMap_WriteBack_map [OF M lb2])
  have log2: "writes d2 =
       writes (disk fs) @ (sec, HeaderBlock newHdr) # map (\<lambda>s. (s, DirectoryBlock ?new)) ?S"
    by (simp add: l2 l1)
  have log: "writes (disk fs1) =
       writes d2 @ map (\<lambda>s. (s, DirectoryBlock dir1)) P @ map (\<lambda>s. (s, BitMapBlock bm2)) M"
    by (simp add: dk l4 l3)
  have t1: "Test bm1 x \<longleftrightarrow> x = sec \<or> Test bm x" for x
    using sec by (auto simp: Test_list_update)
  have S1: "\<forall>s\<in>set ?S. \<not> Test bm1 s"
    using Allocate_Some [OF al] by auto
  have par: "in_range cfg parent" "sectors (disk fs) parent = HeaderBlock (of_hdr f)"
    using o by (auto simp: OpenFile_new_Some)
  have P0: "\<forall>s\<in>set P. sectors (disk fs) s = DirectoryBlock dir"
    using fd by (simp add: Directory_FetchFrom_table [OF P Pn])
  have M0: "\<forall>s\<in>set M. sectors (disk fs) s = BitMapBlock bm"
    using fb by (simp add: BitMap_FetchFrom_map [OF M Mn])
  have sep: "sec \<notin> set ?S" "sec \<notin> set P" "sec \<notin> set M" "sec \<noteq> parent"
    "set ?S \<inter> set P = {}" "set ?S \<inter> set M = {}" "parent \<notin> set ?S"
    "parent \<notin> set P" "parent \<notin> set M" "set P \<inter> set M = {}"
    using marked sec(1) S1 t1 par(2) P0 M0 by auto
  have "OpenFile_new cfg d2 sec = Some nf"
    using o2 sep by (auto simp: OpenFile_new_Some d2 d1)
  moreover have "Directory_FetchFrom cfg (Directory_new NumDirEntries) nf d2 = Some ?new"
    using Sr ln by (auto simp: Directory_FetchFrom_table [OF S Sn] d2)
  ultimately have mid: "directory_at cfg d2 sec = Some ?new"
    by (simp add: directory_at_def)
  have w4': "BitMap_WriteBack cfg bm2 (freeMapFile fs) d3 = Some (disk fs1)"
    using w4 by (simp add: dk)
  have "OpenFile_new cfg d4 sec = Some nf"
    using o2 sep by (auto simp: OpenFile_new_Some d4 d3 d2 d1)
  moreover have "Directory_FetchFrom cfg (Directory_new NumDirEntries) nf d4 = Some ?new"
    using Sr sep ln by (auto simp: Directory_FetchFrom_table [OF S Sn] d4 d3 d2)
  ultimately have fin: "directory_at cfg (disk fs1) sec = Some ?new"
    by (simp add: directory_at_def dk)
  have "OpenFile_new cfg d4 parent = Some f"
    using o sep by (auto simp: OpenFile_new_Some d4 d3 d2 d1)
  moreover have "Directory_FetchFrom cfg (Directory_new NumDirEntries) f d4 = Some dir1"
    using Pr sep ld1 by (auto simp: Directory_FetchFrom_table [OF P Pn] d4 d3)
  ultimately have cd: "current_directory cfg fs1 = Some dir1"
    by (simp add: directory_at_def current_directory_def g1 dk)
  show ?thesis
    using g o seeded_active [of sec parent] Sn log2 mid Directory_Add_Find [OF ad] w3 w4'
      P Pn M Mn log fin cd
    by blast
qed

theorem CreateDirectory_seeds_then_links_witness:
  "metadata_intact example_config formatted \<and>
   (\<exists>fs1 newDir. CreateDirectory example_config (Some ''d'') formatted = Some (True, fs1) \<and>
      directory_at example_config (disk fs1) 5 = Some newDir \<and>
      filter de_inUse newDir = dot_entries 5 1)"
proof -
  have m: "metadata_intact example_config formatted" by code_simp
  have "map_option fst (CreateDirectory example_config (Some ''d'') formatted) = Some True"
    by code_simp
  then obtain fs1 where
    c: "CreateDirectory example_config (Some ''d'') formatted = Some (True, fs1)"
    by (cases "CreateDirectory example_config (Some ''d'') formatted") auto
  from CreateDirectory_seeds_then_links [OF c m] obtain sec parent newDir dir1 where
    p: "GetCurrentDirectory formatted = Some parent" and
    e: "filter de_inUse newDir = dot_entries sec parent" and
    r: "directory_at example_config (disk fs1) sec = Some newDir" and
    d: "current_directory example_config fs1 = Some dir1" and
    f: "Directory_Find dir1 ''d'' = sec"
    by blast
  have "GetCurrentDirectory formatted = Some 1" by code_simp
  with p have p1: "parent = 1" by simp
  have "map_option (\<lambda>dir. Directory_Find dir ''d'')
          (current_directory example_config
             (snd (the (CreateDirectory example_config (Some ''d'') formatted)))) = Some 5"
    by code_simp
  with c d f have "sec = 5" by simp
  with c e r p1 m show ?thesis by auto
qed

text \<open>
  Without the condition the property fails. On the formatted device after
  \<^verbatim>\<open>Remove(".")\<close>, which frees sector 1 and the two sectors of the root
  directory's table, \<^verbatim>\<open>CreateDirectory("d")\<close> succeeds: it takes sector 1 for the
  header of the new directory and the same two sectors for its table. The
  write-back of the parent directory, which comes after the content of the new
  directory, goes to those two sectors as well. The directory persisted at the
  new sector then has the entries "d" and "..", and no entry ".".
\<close>

theorem CreateDirectory_after_removing_dot:
  "map_option fst (Remove example_config (Some ''.'') formatted) = Some True \<and>
   \<not> metadata_intact example_config without_dot \<and>
   GetCurrentDirectory without_dot = Some 1 \<and>
   map_option fst (CreateDirectory example_config (Some ''d'') without_dot) = Some True \<and>
   resolves example_config with_directory_over_parent ''d'' = Some 1 \<and>
   active_entries example_config (disk with_directory_over_parent) 1
     = Some [\<lparr>de_inUse = True, de_sector = 1, de_name = ''d'', de_type = DIR_TYPE\<rparr>,
             \<lparr>de_inUse = True, de_sector = 1, de_name = ''..'', de_type = DIR_TYPE\<rparr>] \<and>
   active_entries example_config (disk with_directory_over_parent) 1
     \<noteq> Some (dot_entries 1 1)"
  by code_simp

section \<open>Transfers through a handle\<close>

text \<open>
  C9. With a handle that is not valid (out of range, slot not in use, or slot
  without I/O object), or with a null buffer, each of \<^verbatim>\<open>Read\<close>, \<^verbatim>\<open>Write\<close>,
  \<^verbatim>\<open>ReadAt\<close> and \<^verbatim>\<open>WriteAt\<close> returns 0 and leaves the state, so every slot of
  the open-file table, unchanged. The four operations are total: the table is
  indexed only after the range test, so there is no run that ends in a fault.
\<close>

theorem invalid_handle_or_null_buffer_transfers_nothing:
  assumes "\<not> IsValidHandle cfg fs h \<or> buf = None"
  shows "Read io cfg h buf n fs = (0, fs) \<and> Write io cfg h buf n fs = (0, fs) \<and>
         ReadAt io cfg h buf n pos fs = (0, fs) \<and> WriteAt io cfg h buf n pos fs = (0, fs)"
  using assms by (auto simp: Read_def Write_def ReadAt_def WriteAt_def)

theorem invalid_handle_or_null_buffer_transfers_nothing_witness:
  "\<not> IsValidHandle example_config formatted 0 \<and>
   \<not> IsValidHandle example_config with_open_file 9 \<and>
   IsValidHandle example_config with_open_file 0 \<and>
   Read example_io example_config 0 (Some 7) 5 formatted = (0, formatted) \<and>
   WriteAt example_io example_config 9 (Some 7) 5 0 with_open_file = (0, with_open_file) \<and>
   ReadAt example_io example_config 0 None 5 0 with_open_file = (0, with_open_file)"
proof -
  have 1: "\<not> IsValidHandle example_config formatted 0" by code_simp
  have 2: "\<not> IsValidHandle example_config with_open_file 9"
    by (simp add: IsValidHandle_def example_config_def)
  have 3: "IsValidHandle example_config with_open_file 0" by code_simp
  from invalid_handle_or_null_buffer_transfers_nothing
         [of example_config formatted 0 "Some 7" example_io 5]
       invalid_handle_or_null_buffer_transfers_nothing
         [of example_config with_open_file 9 "Some 7" example_io 5 0]
       invalid_handle_or_null_buffer_transfers_nothing
         [of example_config with_open_file 0 None example_io 5 0] 1 2 3
  show ?thesis by simp
qed

text \<open>
  C10, as amended. With a valid handle and a non-null buffer, \<^verbatim>\<open>ReadAt\<close> returns
  the number of bytes its I/O object read and adds that number to the slot's
  \<^verbatim>\<open>currentPosition\<close> in the 32-bit arithmetic of the field: the cursor advances
  by exactly the number of bytes read whenever the sum is representable, and
  wraps around otherwise. \<^verbatim>\<open>WriteAt\<close> returns the number of bytes its I/O object
  wrote and leaves the slot's \<^verbatim>\<open>currentPosition\<close> as it was.
\<close>

theorem ReadAt_advances_WriteAt_keeps_cursor:
  assumes "IsValidHandle cfg fs h"
      and "openFile (openFilesTable fs (nat h)) = Some f"
  shows "fst (ReadAt io cfg h (Some buf) n pos fs) = fst (io_ReadAt io f buf n pos (disk fs)) \<and>
    currentPosition (openFilesTable (snd (ReadAt io cfg h (Some buf) n pos fs)) (nat h)) =
       int32 (currentPosition (openFilesTable fs (nat h)) +
              fst (ReadAt io cfg h (Some buf) n pos fs)) \<and>
    (- 2147483648 \<le> currentPosition (openFilesTable fs (nat h)) +
                        fst (ReadAt io cfg h (Some buf) n pos fs) \<and>
     currentPosition (openFilesTable fs (nat h)) +
       fst (ReadAt io cfg h (Some buf) n pos fs) < 2147483648 \<longrightarrow>
     currentPosition (openFilesTable (snd (ReadAt io cfg h (Some buf) n pos fs)) (nat h)) =
       currentPosition (openFilesTable fs (nat h)) +
       fst (ReadAt io cfg h (Some buf) n pos fs)) \<and>
    fst (WriteAt io cfg h (Some buf) n pos fs) = fst (io_WriteAt io f buf n pos (disk fs)) \<and>
    currentPosition (openFilesTable (snd (WriteAt io cfg h (Some buf) n pos fs)) (nat h)) =
       currentPosition (openFilesTable fs (nat h))"
proof -
  have w: "int32 x = x" if "- 2147483648 \<le> x" "x < 2147483648" for x
    using that by (simp add: int32_def)
  obtain k f' d' where r: "io_ReadAt io f buf n pos (disk fs) = (k, f', d')"
    by (cases "io_ReadAt io f buf n pos (disk fs)")
  have "ReadAt io cfg h (Some buf) n pos fs =
          (k, set_slot fs h f' (int32 (currentPosition (openFilesTable fs (nat h)) + k)) d')"
    using assms r by (simp add: ReadAt_def)
  then have 1: "fst (ReadAt io cfg h (Some buf) n pos fs) = k"
    and 2: "currentPosition (openFilesTable (snd (ReadAt io cfg h (Some buf) n pos fs)) (nat h)) =
              int32 (currentPosition (openFilesTable fs (nat h)) + k)"
    by (simp_all add: set_slot_def)
  obtain k2 f2 d2 where r2: "io_WriteAt io f buf n pos (disk fs) = (k2, f2, d2)"
    by (cases "io_WriteAt io f buf n pos (disk fs)")
  have "WriteAt io cfg h (Some buf) n pos fs =
          (k2, set_slot fs h f2 (currentPosition (openFilesTable fs (nat h))) d2)"
    using assms r2 by (simp add: WriteAt_def)
  then have 3: "fst (WriteAt io cfg h (Some buf) n pos fs) = k2"
    and 4: "currentPosition (openFilesTable (snd (WriteAt io cfg h (Some buf) n pos fs)) (nat h)) =
              currentPosition (openFilesTable fs (nat h))"
    by (simp_all add: set_slot_def)
  show ?thesis
    unfolding 1 2 3 4 using r r2 w by simp
qed

theorem ReadAt_advances_WriteAt_keeps_cursor_witness:
  "IsValidHandle example_config with_open_file 0 \<and>
   fst (ReadAt example_io example_config 0 (Some 7) 5 0 with_open_file) = 5 \<and>
   currentPosition (openFilesTable
      (snd (ReadAt example_io example_config 0 (Some 7) 5 0 with_open_file)) 0) = 5 \<and>
   fst (WriteAt example_io example_config 0 (Some 7) 5 0 with_open_file) = 5 \<and>
   currentPosition (openFilesTable
      (snd (WriteAt example_io example_config 0 (Some 7) 5 0 with_open_file)) 0) = 0"
proof -
  have v: "IsValidHandle example_config with_open_file 0" by code_simp
  then obtain f where f: "openFile (openFilesTable with_open_file (nat 0)) = Some f"
    by (auto simp: IsValidHandle_def)
  have p: "currentPosition (openFilesTable with_open_file (nat 0)) = 0" by code_simp
  have "map_option (\<lambda>f. fh_numBytes (of_hdr f)) (openFile (openFilesTable with_open_file (nat 0)))
          = Some 100"
    by code_simp
  with f have n: "fh_numBytes (of_hdr f) = 100" by simp
  have r: "fst (io_ReadAt example_io f 7 5 0 (disk with_open_file)) = 5"
    and w: "fst (io_WriteAt example_io f 7 5 0 (disk with_open_file)) = 5"
    using n by (simp_all add: example_io_def example_count_def)
  note t = ReadAt_advances_WriteAt_keeps_cursor [OF v f, of example_io 7 5 0]
  from t r have 1: "fst (ReadAt example_io example_config 0 (Some 7) 5 0 with_open_file) = 5"
    by simp
  from t w have 3: "fst (WriteAt example_io example_config 0 (Some 7) 5 0 with_open_file) = 5"
    by simp
  from t have "currentPosition (openFilesTable
      (snd (ReadAt example_io example_config 0 (Some 7) 5 0 with_open_file)) (nat 0)) =
      int32 (currentPosition (openFilesTable with_open_file (nat 0)) +
             fst (ReadAt example_io example_config 0 (Some 7) 5 0 with_open_file))"
    by blast
  then have 2: "currentPosition (openFilesTable
      (snd (ReadAt example_io example_config 0 (Some 7) 5 0 with_open_file)) (nat 0)) = 5"
    unfolding 1 p by (simp add: int32_def)
  from t have "currentPosition (openFilesTable
      (snd (WriteAt example_io example_config 0 (Some 7) 5 0 with_open_file)) (nat 0)) =
      currentPosition (openFilesTable with_open_file (nat 0))"
    by blast
  then have 4: "currentPosition (openFilesTable
      (snd (WriteAt example_io example_config 0 (Some 7) 5 0 with_open_file)) (nat 0)) = 0"
    unfolding p .
  from v 1 2 3 4 show ?thesis by simp
qed

text \<open>
  Read as a sum of integers the property fails once the cursor is near the
  largest \<^verbatim>\<open>int\<close>. On the device with the open file "a" of 100 bytes,
  21474836 positional reads of 100 bytes and one of 47 bytes through handle 0
  bring its cursor to 2147483647. A positional read of 5 bytes then returns 5
  and leaves the cursor at -2147483644, which is not 2147483647 + 5.
\<close>

theorem ReadAt_cursor_wraps_around:
  "IsValidHandle example_config with_cursor_at_max 0 \<and>
   currentPosition (openFilesTable with_cursor_at_max 0) = 2147483647 \<and>
   fst (ReadAt example_io example_config 0 (Some 7) 5 0 with_cursor_at_max) = 5 \<and>
   currentPosition (openFilesTable
      (snd (ReadAt example_io example_config 0 (Some 7) 5 0 with_cursor_at_max)) 0)
     = - 2147483644 \<and>
   currentPosition (openFilesTable
      (snd (ReadAt example_io example_config 0 (Some 7) 5 0 with_cursor_at_max)) 0)
     \<noteq> currentPosition (openFilesTable with_cursor_at_max 0) +
        fst (ReadAt example_io example_config 0 (Some 7) 5 0 with_cursor_at_max)"
proof -
  have "open_at 0 with_open_file" by code_simp
  from example_reads [OF this, of 21474836]
  have "open_at 2147483600 ((example_read 100 ^^ 21474836) with_open_file)" by simp
  from example_read_step [OF this, of 47]
  have m: "open_at 2147483647 with_cursor_at_max"
    by (simp add: with_cursor_at_max_def int32_def)
  from example_read_step [OF m, of 5] m show ?thesis
    by (simp add: open_at_def example_read_def int32_def)
qed

end
